theory Spec2Isabelle
  imports Main "HOL-Library.Product_Lexorder"
begin

section \<open>Lead management backend: controllers over a document store\<close>

text \<open>
  The controllers of \<^verbatim>\<open>leadController.js\<close> and \<^verbatim>\<open>reportController.js\<close> are embedded as
  functions over an explicit store: the \<^verbatim>\<open>Lead\<close> collection is a list of documents in
  natural (insertion) order, the \<^verbatim>\<open>User\<close> collection a list of users. A handler takes the
  store and returns the HTTP response together with the store it leaves behind. Every
  \<^verbatim>\<open>return res.status(..)\<close> and every exception that reaches a \<^verbatim>\<open>catch\<close> block is a
  branch of the model. Clock readings and freshly generated ids are arguments.
  Strings are ASCII text.
\<close>

subsection \<open>Strings: the regular expressions and schema setters\<close>

definition isDigit :: "char \<Rightarrow> bool" where
  "isDigit c = (c \<in> set ''0123456789'')"

definition isUpperAZ :: "char \<Rightarrow> bool" where
  "isUpperAZ c = (c \<in> set ''ABCDEFGHIJKLMNOPQRSTUVWXYZ'')"

definition isSpace :: "char \<Rightarrow> bool" where
  "isSpace c = (of_char c \<in> {9, 10, 11, 12, 13, 32 :: nat})"

definition toUpperChar :: "char \<Rightarrow> char" where
  "toUpperChar c =
     (let n = of_char c :: nat in if 97 \<le> n \<and> n \<le> 122 then char_of (n - 32) else c)"

definition toUpperCase :: "string \<Rightarrow> string" where
  "toUpperCase s = map toUpperChar s"

definition trim :: "string \<Rightarrow> string" where
  "trim s = rev (dropWhile isSpace (rev (dropWhile isSpace s)))"

text \<open>\<^verbatim>\<open>/^[A-Z]{5}[0-9]{4}[A-Z]{1}$/\<close>, \<^verbatim>\<open>/^[0-9]{12}$/\<close>, \<^verbatim>\<open>/^[0-9]{16}$/\<close> and
  \<^verbatim>\<open>/^[0-9]{10}$/\<close>.\<close>

definition panRegex :: "string \<Rightarrow> bool" where
  "panRegex s =
     (length s = 10 \<and> list_all isUpperAZ (take 5 s) \<and> list_all isDigit (take 4 (drop 5 s))
      \<and> list_all isUpperAZ (drop 9 s))"

definition digitsRegex :: "nat \<Rightarrow> string \<Rightarrow> bool" where
  "digitsRegex n s = (length s = n \<and> list_all isDigit s)"

text \<open>JavaScript truthiness of an optional string: \<^verbatim>\<open>undefined\<close> and \<^verbatim>\<open>''\<close> are falsy.\<close>

fun truthy :: "string option \<Rightarrow> bool" where
  "truthy None = False"
| "truthy (Some s) = (s \<noteq> [])"

subsection \<open>Dates\<close>

text \<open>
  A \<^verbatim>\<open>Date\<close> is held by its civil components in the server's time zone, months counted
  from 0 as in JavaScript. Instants compare as their components do, lexicographically.
\<close>

record date =
  year :: int
  month :: nat
  day :: nat
  hours :: nat
  minutes :: nat
  seconds :: nat
  millis :: nat

definition dateKey :: "date \<Rightarrow> int \<times> nat \<times> nat \<times> nat \<times> nat \<times> nat \<times> nat" where
  "dateKey d = (year d, month d, day d, hours d, minutes d, seconds d, millis d)"

definition dateLe :: "date \<Rightarrow> date \<Rightarrow> bool" where
  "dateLe a b = (dateKey a \<le> dateKey b)"

definition isLeapYear :: "int \<Rightarrow> bool" where
  "isLeapYear y = (y mod 4 = 0 \<and> (y mod 100 \<noteq> 0 \<or> y mod 400 = 0))"

definition daysInMonth :: "int \<Rightarrow> nat \<Rightarrow> nat" where
  "daysInMonth y m =
     (if m = 1 then (if isLeapYear y then 29 else 28)
      else if m \<in> {3, 5, 8, 10} then 30 else 31)"

text \<open>\<^verbatim>\<open>new Date(y, m, 1)\<close> and \<^verbatim>\<open>new Date(y, m + 1, 0, 23, 59, 59)\<close>: day 0 of the next month
  is the last day of month \<open>m\<close>; the milliseconds argument is left out, so it is 0.\<close>

definition startOfMonth :: "int \<Rightarrow> nat \<Rightarrow> date" where
  "startOfMonth y m =
     \<lparr>year = y, month = m, day = 1, hours = 0, minutes = 0, seconds = 0, millis = 0\<rparr>"

definition endOfMonth :: "int \<Rightarrow> nat \<Rightarrow> date" where
  "endOfMonth y m =
     \<lparr>year = y, month = m, day = daysInMonth y m, hours = 23, minutes = 59, seconds = 59,
      millis = 0\<rparr>"

definition sameMonth :: "date \<Rightarrow> date \<Rightarrow> bool" where
  "sameMonth a b = (year a = year b \<and> month a = month b)"

text \<open>A well-formed date: every component in its calendar range.\<close>

definition validDate :: "date \<Rightarrow> bool" where
  "validDate d =
     (month d < 12 \<and> 1 \<le> day d \<and> day d \<le> daysInMonth (year d) (month d) \<and> hours d < 24
      \<and> minutes d < 60 \<and> seconds d < 60 \<and> millis d < 1000)"

subsection \<open>Documents\<close>

text \<open>An \<open>objectId\<close> names a well-formed ObjectId; the samples below use short names in
  place of the 24 hex digits. A request whose id string does not parse makes the cast of
  the query throw; such ids are outside this type.\<close>

type_synonym objectId = string

record user =
  userId :: objectId
  userName :: string
  userEmail :: string
  userRole :: string

text \<open>What \<^verbatim>\<open>toObject()\<close> gives once \<^verbatim>\<open>editHistory\<close> is deleted from it: the paths of
  \<^verbatim>\<open>leadSchema\<close> other than \<^verbatim>\<open>editHistory\<close>, the two stamps of \<^verbatim>\<open>timestamps: true\<close>, and the
  version key \<^verbatim>\<open>__v\<close> (here \<open>version\<close>), which starts at 0 and which \<^verbatim>\<open>save()\<close> increments when
  an array of the document was pushed to. \<^verbatim>\<open>monthlySalary\<close>, a number, is held as a whole
  amount.\<close>

record leadData =
  leadId :: objectId
  customerName :: string
  mobileNumber :: string
  panCard :: string
  aadharNumber :: string
  preferredBank :: "string option"
  employmentType :: "string option"
  monthlySalary :: "int option"
  status :: string
  rejectionReason :: string
  rejectionNotes :: "string option"
  source :: string
  createdBy :: objectId
  createdAt :: date
  updatedAt :: date
  version :: nat

record editEntry =
  editorId :: objectId
  timestamp :: date
  previousData :: leadData
  newData :: leadData

record lead = leadData +
  editHistory :: "editEntry list"

text \<open>The plain keys of a request body: each schema path is present or absent.
  \<^verbatim>\<open>createdAt\<close> is a path too, through the \<^verbatim>\<open>timestamps\<close> option.\<close>

record leadPaths =
  bCustomerName :: "string option"
  bMobileNumber :: "string option"
  bPanCard :: "string option"
  bAadharNumber :: "string option"
  bPreferredBank :: "string option"
  bEmploymentType :: "string option"
  bMonthlySalary :: "int option"
  bStatus :: "string option"
  bRejectionReason :: "string option"
  bRejectionNotes :: "string option"
  bSource :: "string option"
  bCreatedBy :: "objectId option"
  bEditHistory :: "editEntry list option"
  bCreatedAt :: "date option"

text \<open>
  The handlers pass \<^verbatim>\<open>req.body\<close> on as it came. \<^verbatim>\<open>findByIdAndUpdate\<close> reads it as an update
  document: the plain keys are a \<^verbatim>\<open>$set\<close>, and keys that name update operators are applied
  as such. An operator entry of a body is
  \<^item> \<open>SetOp\<close>, a \<^verbatim>\<open>$set\<close> of schema paths;
  \<^item> \<open>PushOp\<close>, a \<^verbatim>\<open>$push\<close> of entries onto \<^verbatim>\<open>editHistory\<close> (one entry, or several with
    \<^verbatim>\<open>$each\<close>);
  \<^item> \<open>OtherOp\<close>, any other operator that the server applies (\<^verbatim>\<open>$unset\<close>, \<^verbatim>\<open>$rename\<close>,
    \<^verbatim>\<open>$inc\<close>, \<^verbatim>\<open>$max\<close>, \<^verbatim>\<open>$pull\<close>, ...), held by what it makes of the stored document.
  The operators of one body are taken to name different paths, as the server refuses a
  body that writes one path twice. \<^verbatim>\<open>Lead.create\<close> reads the plain keys only: keys that
  are not schema paths, operator keys among them, are dropped there by the strict mode.
\<close>

datatype operator = SetOp leadPaths | PushOp "editEntry list" | OtherOp "lead \<Rightarrow> lead"

record leadBody = leadPaths +
  bOperators :: "operator list"

record authUser =
  authId :: objectId
  authRole :: string

text \<open>An exception that reaches a handler's \<^verbatim>\<open>catch\<close>: a Mongoose validation error with
  the failing paths, or the \<^verbatim>\<open>TypeError\<close> of reading a property of \<^verbatim>\<open>null\<close>.\<close>

datatype thrown = ValidationError "string list" | TypeError string

datatype message = Text string | ErrorMessage thrown

record 'a response =
  resStatus :: nat
  resSuccess :: bool
  resMessage :: "message option"
  resData :: "'a option"

definition failure :: "nat \<Rightarrow> message \<Rightarrow> 'a response" where
  "failure c m = \<lparr>resStatus = c, resSuccess = False, resMessage = Some m, resData = None\<rparr>"

definition succeed :: "nat \<Rightarrow> 'a option \<Rightarrow> 'a response" where
  "succeed c d = \<lparr>resStatus = c, resSuccess = True, resMessage = None, resData = d\<rparr>"

subsection \<open>The lead schema: setters, defaults and validators\<close>

definition valueOr :: "'a \<Rightarrow> 'a option \<Rightarrow> 'a" where
  "valueOr d v = (case v of Some x \<Rightarrow> x | None \<Rightarrow> d)"

definition orElse :: "'a option \<Rightarrow> 'a option \<Rightarrow> 'a option" where
  "orElse v old = (case v of Some x \<Rightarrow> Some x | None \<Rightarrow> old)"

text \<open>Casting through the schema runs the string setters: \<^verbatim>\<open>trim\<close> on \<^verbatim>\<open>customerName\<close>,
  \<^verbatim>\<open>panCard\<close>, \<^verbatim>\<open>aadharNumber\<close> and \<^verbatim>\<open>rejectionNotes\<close>, \<^verbatim>\<open>uppercase\<close> on \<^verbatim>\<open>panCard\<close>. The
  plain keys of a body and the paths of a \<^verbatim>\<open>$set\<close> are cast alike.\<close>

definition castPaths :: "'a leadPaths_scheme \<Rightarrow> 'a leadPaths_scheme" where
  "castPaths b =
     b\<lparr>bCustomerName := map_option trim (bCustomerName b),
       bPanCard := map_option (\<lambda>s. toUpperCase (trim s)) (bPanCard b),
       bAadharNumber := map_option trim (bAadharNumber b),
       bRejectionNotes := map_option trim (bRejectionNotes b)\<rparr>"

fun castOperator :: "operator \<Rightarrow> operator" where
  "castOperator (SetOp p) = SetOp (castPaths p)"
| "castOperator (PushOp es) = PushOp es"
| "castOperator (OtherOp f) = OtherOp f"

definition castBody :: "leadBody \<Rightarrow> leadBody" where
  "castBody b = (castPaths b)\<lparr>bOperators := map castOperator (bOperators b)\<rparr>"

definition employmentTypeEnum :: "string list" where
  "employmentTypeEnum = [''Salaried'', ''Self-Employed'']"

definition statusEnum :: "string list" where
  "statusEnum = [''New'', ''Follow-up'', ''Approved'', ''Rejected'']"

definition rejectionReasonEnum :: "string list" where
  "rejectionReasonEnum =
     [[], ''CIBIL Issue'', ''Low Income'', ''Documentation Missing'', ''Not Interested'',
      ''Poor Lead'', ''Other'']"

definition sourceEnum :: "string list" where
  "sourceEnum = [''Manual'', ''Link'']"

text \<open>A validator runs on a path that is present; the result is the list of failing
  paths. \<^verbatim>\<open>required\<close> on a string path rejects the empty string, \<^verbatim>\<open>match\<close> skips it.\<close>

definition check :: "string \<Rightarrow> 'a option \<Rightarrow> ('a \<Rightarrow> bool) \<Rightarrow> string list" where
  "check path v ok = (case v of None \<Rightarrow> [] | Some x \<Rightarrow> if ok x then [] else [path])"

definition checkPaths :: "'a leadPaths_scheme \<Rightarrow> string list" where
  "checkPaths b =
     check ''customerName'' (bCustomerName b) (\<lambda>s. s \<noteq> [])
     @ check ''mobileNumber'' (bMobileNumber b) (\<lambda>s. s \<noteq> [] \<and> (s = [] \<or> digitsRegex 10 s))
     @ check ''panCard'' (bPanCard b) (\<lambda>s. s \<noteq> [])
     @ check ''aadharNumber'' (bAadharNumber b) (\<lambda>s. s \<noteq> [])
     @ check ''employmentType'' (bEmploymentType b) (\<lambda>s. s \<in> set employmentTypeEnum)
     @ check ''status'' (bStatus b) (\<lambda>s. s \<in> set statusEnum)
     @ check ''rejectionReason'' (bRejectionReason b) (\<lambda>s. s \<in> set rejectionReasonEnum)
     @ check ''source'' (bSource b) (\<lambda>s. s \<in> set sourceEnum)"

text \<open>The update validators run on the plain keys and on the paths of every \<^verbatim>\<open>$set\<close>. The
  list is in schema order; the order in which the error message names the paths is not
  modelled.\<close>

fun operatorPaths :: "operator \<Rightarrow> string list" where
  "operatorPaths (SetOp p) = checkPaths p"
| "operatorPaths (PushOp es) = []"
| "operatorPaths (OtherOp f) = []"

definition validatePaths :: "leadBody \<Rightarrow> string list" where
  "validatePaths b = checkPaths b @ concat (map operatorPaths (bOperators b))"

text \<open>The validation that \<^verbatim>\<open>save()\<close> runs on a loaded document, path by path, with the
  same validators; a required string path that is absent reads as the empty string here.
  \<^verbatim>\<open>createdBy\<close> is always held by a stored document of this model.\<close>

definition validateDocument :: "lead \<Rightarrow> string list" where
  "validateDocument l =
     check ''customerName'' (Some (customerName l)) (\<lambda>s. s \<noteq> [])
     @ check ''mobileNumber'' (Some (mobileNumber l)) (\<lambda>s. s \<noteq> [] \<and> digitsRegex 10 s)
     @ check ''panCard'' (Some (panCard l)) (\<lambda>s. s \<noteq> [])
     @ check ''aadharNumber'' (Some (aadharNumber l)) (\<lambda>s. s \<noteq> [])
     @ check ''employmentType'' (employmentType l) (\<lambda>s. s \<in> set employmentTypeEnum)
     @ check ''status'' (Some (status l)) (\<lambda>s. s \<in> set statusEnum)
     @ check ''rejectionReason'' (Some (rejectionReason l)) (\<lambda>s. s \<in> set rejectionReasonEnum)
     @ check ''source'' (Some (source l)) (\<lambda>s. s \<in> set sourceEnum)"

definition missing :: "string \<Rightarrow> 'a option \<Rightarrow> string list" where
  "missing path v = (case v of None \<Rightarrow> [path] | Some x \<Rightarrow> [])"

definition missingRequired :: "'a leadPaths_scheme \<Rightarrow> string list" where
  "missingRequired b =
     missing ''customerName'' (bCustomerName b) @ missing ''mobileNumber'' (bMobileNumber b)
     @ missing ''panCard'' (bPanCard b) @ missing ''aadharNumber'' (bAadharNumber b)
     @ missing ''createdBy'' (bCreatedBy b)"

text \<open>\<^verbatim>\<open>Lead.create(body)\<close>: cast the plain keys, validate the whole document, fill the
  defaults and the stamps. A \<^verbatim>\<open>createdAt\<close> that the body carries is kept; \<^verbatim>\<open>updatedAt\<close> of
  a new document is set to its \<^verbatim>\<open>createdAt\<close>. The new document is appended by the caller.\<close>

definition leadCreate :: "objectId \<Rightarrow> date \<Rightarrow> leadBody \<Rightarrow> thrown + lead" where
  "leadCreate newId t body =
     (let b = castPaths body; errs = missingRequired b @ checkPaths b
      in if errs \<noteq> [] then Inl (ValidationError errs)
         else Inr \<lparr>leadId = newId,
                   customerName = valueOr [] (bCustomerName b),
                   mobileNumber = valueOr [] (bMobileNumber b),
                   panCard = valueOr [] (bPanCard b),
                   aadharNumber = valueOr [] (bAadharNumber b),
                   preferredBank = bPreferredBank b,
                   employmentType = bEmploymentType b,
                   monthlySalary = bMonthlySalary b,
                   status = valueOr ''New'' (bStatus b),
                   rejectionReason = valueOr [] (bRejectionReason b),
                   rejectionNotes = bRejectionNotes b,
                   source = valueOr ''Manual'' (bSource b),
                   createdBy = valueOr [] (bCreatedBy b),
                   createdAt = valueOr t (bCreatedAt b),
                   updatedAt = valueOr t (bCreatedAt b),
                   version = 0,
                   editHistory = valueOr [] (bEditHistory b)\<rparr>)"

subsection \<open>Store operations\<close>

definition findById :: "lead list \<Rightarrow> objectId \<Rightarrow> lead option" where
  "findById leads i = find (\<lambda>l. leadId l = i) leads"

definition findUserById :: "user list \<Rightarrow> objectId \<Rightarrow> user option" where
  "findUserById users i = find (\<lambda>u. userId u = i) users"

text \<open>Writing a document back replaces the stored document of the same id; deleting
  removes it.\<close>

fun replaceLead :: "lead \<Rightarrow> lead list \<Rightarrow> lead list" where
  "replaceLead d [] = []"
| "replaceLead d (l # ls) = (if leadId l = leadId d then d # ls else l # replaceLead d ls)"

fun deleteOne :: "objectId \<Rightarrow> lead list \<Rightarrow> lead list" where
  "deleteOne i [] = []"
| "deleteOne i (l # ls) = (if leadId l = i then ls else l # deleteOne i ls)"

text \<open>\<^verbatim>\<open>$set\<close> of the paths that are present, and the \<^verbatim>\<open>updatedAt\<close> stamp that the
  \<^verbatim>\<open>timestamps\<close> option adds to every update. \<^verbatim>\<open>createdAt\<close> is immutable: an update that
  names it leaves it as it is.\<close>

definition applySet :: "date \<Rightarrow> 'a leadPaths_scheme \<Rightarrow> lead \<Rightarrow> lead" where
  "applySet t b l =
     l\<lparr>customerName := valueOr (customerName l) (bCustomerName b),
       mobileNumber := valueOr (mobileNumber l) (bMobileNumber b),
       panCard := valueOr (panCard l) (bPanCard b),
       aadharNumber := valueOr (aadharNumber l) (bAadharNumber b),
       preferredBank := orElse (bPreferredBank b) (preferredBank l),
       employmentType := orElse (bEmploymentType b) (employmentType l),
       monthlySalary := orElse (bMonthlySalary b) (monthlySalary l),
       status := valueOr (status l) (bStatus b),
       rejectionReason := valueOr (rejectionReason l) (bRejectionReason b),
       rejectionNotes := orElse (bRejectionNotes b) (rejectionNotes l),
       source := valueOr (source l) (bSource b),
       createdBy := valueOr (createdBy l) (bCreatedBy b),
       updatedAt := t,
       editHistory := valueOr (editHistory l) (bEditHistory b)\<rparr>"

text \<open>One operator entry. Whatever another operator makes of the document, \<^verbatim>\<open>_id\<close> and
  \<^verbatim>\<open>createdAt\<close> stay: the server writes no \<^verbatim>\<open>_id\<close>, and the immutable path is taken out
  of the update.\<close>

fun applyOperator :: "date \<Rightarrow> operator \<Rightarrow> lead \<Rightarrow> lead" where
  "applyOperator t (SetOp p) l = applySet t p l"
| "applyOperator t (PushOp es) l = l\<lparr>editHistory := editHistory l @ es\<rparr>"
| "applyOperator t (OtherOp f) l = (f l)\<lparr>leadId := leadId l, createdAt := createdAt l\<rparr>"

text \<open>The whole update document: Mongoose folds the plain keys into the \<^verbatim>\<open>$set\<close>, where
  they win over a \<^verbatim>\<open>$set\<close> entry of the same path.\<close>

definition applyUpdate :: "date \<Rightarrow> leadBody \<Rightarrow> lead \<Rightarrow> lead" where
  "applyUpdate t b l = applySet t b (fold (applyOperator t) (bOperators b) l)"

text \<open>\<^verbatim>\<open>Lead.findByIdAndUpdate(id, body, {new: true, runValidators: true})\<close>: the update
  validators run on the cast body before anything is written; the result is the updated
  document (\<^verbatim>\<open>null\<close> when no document has the id) and the store.\<close>

definition findByIdAndUpdate ::
  "date \<Rightarrow> objectId \<Rightarrow> leadBody \<Rightarrow> lead list \<Rightarrow> thrown + (lead option \<times> lead list)" where
  "findByIdAndUpdate t i body leads =
     (let b = castBody body; errs = validatePaths b
      in if errs \<noteq> [] then Inl (ValidationError errs)
         else (case findById leads i of
                 None \<Rightarrow> Inr (None, leads)
               | Some l \<Rightarrow> (let l' = applyUpdate t b l in Inr (Some l', replaceLead l' leads))))"

subsection \<open>The lead controller\<close>

text \<open>\<^verbatim>\<open>checkDuplicateLead\<close>: the first stored lead whose PAN or national-id equals the
  one asked for and whose \<^verbatim>\<open>createdAt\<close> lies in the window of the current month, with its
  creator populated (\<^verbatim>\<open>null\<close> when no user has that id). \<^verbatim>\<open>Lead.findOne\<close> casts the filter
  through the schema, so the setters of the two paths run on the strings of the request:
  the PAN is trimmed and upper-cased, the national-id trimmed.\<close>

definition inMonthWindow :: "date \<Rightarrow> date \<Rightarrow> bool" where
  "inMonthWindow now t =
     (dateLe (startOfMonth (year now) (month now)) t
      \<and> dateLe t (endOfMonth (year now) (month now)))"

definition duplicateFilter :: "date \<Rightarrow> string \<Rightarrow> string \<Rightarrow> lead \<Rightarrow> bool" where
  "duplicateFilter now pan aadhar l =
     ((panCard l = pan \<or> aadharNumber l = aadhar) \<and> inMonthWindow now (createdAt l))"

definition checkDuplicateLead ::
  "date \<Rightarrow> user list \<Rightarrow> lead list \<Rightarrow> string \<Rightarrow> string \<Rightarrow> (lead \<times> user option) option" where
  "checkDuplicateLead now users leads pan aadhar =
     map_option (\<lambda>l. (l, findUserById users (createdBy l)))
       (find (duplicateFilter now (toUpperCase (trim pan)) (trim aadhar)) leads)"

definition duplicateMessage :: "user \<Rightarrow> string" where
  "duplicateMessage creator =
     ''This lead already exists for this month. It was created by '' @ userName creator
     @ '' ('' @ userEmail creator @ ''). You can add this lead again next month.''"

text \<open>\<^verbatim>\<open>createLead\<close>. \<open>now\<close> is the clock of the duplicate check, \<open>t\<close> the clock of
  \<^verbatim>\<open>Lead.create\<close>, \<open>newId\<close> the id given to the new document.\<close>

definition createLead ::
  "date \<Rightarrow> date \<Rightarrow> objectId \<Rightarrow> user list \<Rightarrow> authUser \<Rightarrow> leadBody \<Rightarrow> lead list
     \<Rightarrow> lead response \<times> lead list" where
  "createLead now t newId users usr body leads =
     (if \<not> truthy (bPanCard body) \<or> \<not> truthy (bAadharNumber body) then
        (failure 400 (Text ''Please provide both a PAN card and an Aadhar card number.''), leads)
      else if \<not> panRegex (toUpperCase (valueOr [] (bPanCard body))) then
        (failure 400
           (Text ''Invalid PAN card format. It should be 5 letters, 4 numbers, and 1 letter.''),
         leads)
      else if \<not> digitsRegex 12 (valueOr [] (bAadharNumber body)) then
        (failure 400 (Text ''Invalid Aadhar card format. It should be 12 digits.''), leads)
      else
        (case checkDuplicateLead now users leads (valueOr [] (bPanCard body))
                (valueOr [] (bAadharNumber body)) of
           Some (duplicateLead, None) \<Rightarrow>
             (failure 400 (ErrorMessage (TypeError ''name'')), leads)
         | Some (duplicateLead, Some creator) \<Rightarrow>
             (failure 409 (Text (duplicateMessage creator)), leads)
         | None \<Rightarrow>
             (case findUserById users (authId usr) of
                None \<Rightarrow> (failure 404 (Text ''User not found''), leads)
              | Some u \<Rightarrow>
                  (case leadCreate newId t
                          (body\<lparr>bCreatedBy := Some (authId usr), bSource := Some ''Manual''\<rparr>) of
                     Inl e \<Rightarrow> (failure 400 (ErrorMessage e), leads)
                   | Inr l \<Rightarrow> (succeed 201 (Some l), leads @ [l])))))"

text \<open>\<^verbatim>\<open>createLeadFromLink\<close>: the creator comes from the URL, the national-id has 16
  digits, and the conflict message names nobody.\<close>

definition createLeadFromLink ::
  "date \<Rightarrow> date \<Rightarrow> objectId \<Rightarrow> user list \<Rightarrow> objectId \<Rightarrow> leadBody \<Rightarrow> lead list
     \<Rightarrow> lead response \<times> lead list" where
  "createLeadFromLink now t newId users uid body leads =
     (case findUserById users uid of
        None \<Rightarrow> (failure 404 (Text ''Invalid referral link.''), leads)
      | Some userExists \<Rightarrow>
          if \<not> truthy (bPanCard body) \<or> \<not> truthy (bAadharNumber body) then
            (failure 400 (Text ''Please provide both a PAN card and an Aadhar card number.''),
             leads)
          else if \<not> panRegex (toUpperCase (valueOr [] (bPanCard body))) then
            (failure 400
               (Text ''Invalid PAN card format. It should be 5 letters, 4 numbers, and 1 letter.''),
             leads)
          else if \<not> digitsRegex 16 (valueOr [] (bAadharNumber body)) then
            (failure 400 (Text ''Invalid Aadhar card format. It should be 16 digits.''), leads)
          else
            (case checkDuplicateLead now users leads (valueOr [] (bPanCard body))
                    (valueOr [] (bAadharNumber body)) of
               Some d \<Rightarrow>
                 (failure 409 (Text ''This lead already exists. Please try again after this month.''),
                  leads)
             | None \<Rightarrow>
                 (case leadCreate newId t
                         (body\<lparr>bCreatedBy := Some uid, bSource := Some ''Link''\<rparr>) of
                    Inl e \<Rightarrow> (failure 400 (ErrorMessage e), leads)
                  | Inr l \<Rightarrow>
                      ((succeed 201 (Some l))\<lparr>resMessage := Some (Text ''Lead submitted successfully!'')\<rparr>,
                       leads @ [l]))))"

text \<open>\<^verbatim>\<open>updateLead\<close>. \<open>tUpdate\<close> is the clock of \<^verbatim>\<open>findByIdAndUpdate\<close>, \<open>tPush\<close> the default
  \<^verbatim>\<open>timestamp\<close> of the pushed history entry, \<open>tSave\<close> the clock of \<^verbatim>\<open>lead.save()\<close>, which
  stamps \<^verbatim>\<open>updatedAt\<close> again and, an array having been pushed to, increments the version
  key. The snapshots are the documents without \<^verbatim>\<open>editHistory\<close>. The save is taken to pass
  its own validation of the document: the stored paths were accepted by the same
  validators when they were written. Where a result depends on it, \<open>validateDocument\<close> of
  the written document is asked for.\<close>

definition updateLead ::
  "date \<Rightarrow> date \<Rightarrow> date \<Rightarrow> authUser \<Rightarrow> objectId \<Rightarrow> leadBody \<Rightarrow> lead list
     \<Rightarrow> lead response \<times> lead list" where
  "updateLead tUpdate tPush tSave usr i body leads =
     (case findById leads i of
        None \<Rightarrow> (failure 404 (Text ''Lead not found''), leads)
      | Some l \<Rightarrow>
          if createdBy l \<noteq> authId usr \<and> authRole usr \<noteq> ''SUPER ADMIN'' then
            (failure 403 (Text ''Not authorized to update this lead''), leads)
          else
            (let previous = leadData.truncate l
             in case findByIdAndUpdate tUpdate i body leads of
                  Inl e \<Rightarrow> (failure 400 (ErrorMessage e), leads)
                | Inr (None, leads') \<Rightarrow> (failure 400 (ErrorMessage (TypeError ''toObject'')), leads')
                | Inr (Some l', leads') \<Rightarrow>
                    (let saved =
                           l'\<lparr>editHistory :=
                                editHistory l'
                                @ [\<lparr>editorId = authId usr, timestamp = tPush,
                                    previousData = previous, newData = leadData.truncate l'\<rparr>],
                              updatedAt := tSave, version := Suc (version l')\<rparr>
                     in (succeed 200 (Some saved), replaceLead saved leads'))))"

text \<open>\<^verbatim>\<open>deleteLead\<close>: the same ownership check, then a hard delete.\<close>

definition deleteLead ::
  "authUser \<Rightarrow> objectId \<Rightarrow> lead list \<Rightarrow> lead response \<times> lead list" where
  "deleteLead usr i leads =
     (case findById leads i of
        None \<Rightarrow> (failure 404 (Text ''Lead not found''), leads)
      | Some l \<Rightarrow>
          if createdBy l \<noteq> authId usr \<and> authRole usr \<noteq> ''SUPER ADMIN'' then
            (failure 403 (Text ''Not authorized to delete this lead''), leads)
          else (succeed 200 None, deleteOne i leads))"

subsection \<open>Numbers\<close>

text \<open>
  A JavaScript number is a binary64 float. The ratios of the report controller divide two
  counts and multiply by 100, so the values that occur are non-negative and far from the
  exponent limits: \<open>Number m e\<close> stands for \<open>m * 2 ^ e\<close>, with \<open>2 ^ 52 \<le> m < 2 ^ 53\<close>
  for every value but zero, and each operation rounds its exact result to the nearest
  such value, ties to the even mantissa.
\<close>

datatype number = Number int int

function bitLength :: "int \<Rightarrow> int" where
  "bitLength n = (if n \<le> 0 then 0 else 1 + bitLength (n div 2))"
  by pat_completeness auto
termination
  by (relation "measure nat") auto

declare bitLength.simps [simp del]

definition roundHalfEven :: "int \<Rightarrow> int \<Rightarrow> int" where
  "roundHalfEven n d =
     (let q = n div d; r = n mod d
      in if 2 * r < d then q else if d < 2 * r then q + 1 else if even q then q else q + 1)"

text \<open>The integer part of the binary logarithm of \<open>n / d\<close>, for positive \<open>n\<close> and \<open>d\<close>.\<close>

definition floorLog2 :: "int \<Rightarrow> int \<Rightarrow> int" where
  "floorLog2 n d =
     (let k = bitLength n - bitLength d
      in if (if 0 \<le> k then d * 2 ^ nat k \<le> n else d \<le> n * 2 ^ nat (- k)) then k else k - 1)"

text \<open>The number nearest to the fraction \<open>n / d\<close>.\<close>

definition toNumber :: "int \<Rightarrow> int \<Rightarrow> number" where
  "toNumber n d =
     (if n = 0 then Number 0 0
      else let e = floorLog2 n d - 52;
               m = (if e \<le> 0 then roundHalfEven (n * 2 ^ nat (- e)) d
                    else roundHalfEven n (d * 2 ^ nat e))
           in if m = 2 ^ 53 then Number (2 ^ 52) (e + 1) else Number m e)"

definition numOfNat :: "nat \<Rightarrow> number" where
  "numOfNat n = toNumber (int n) 1"

definition numDiv :: "nat \<Rightarrow> nat \<Rightarrow> number" where
  "numDiv a b = toNumber (int a) (int b)"

fun numMul :: "number \<Rightarrow> number \<Rightarrow> number" where
  "numMul (Number m1 e1) (Number m2 e2) =
     (let e = e1 + e2
      in if 0 \<le> e then toNumber (m1 * m2 * 2 ^ nat e) 1 else toNumber (m1 * m2) (2 ^ nat (- e)))"

text \<open>\<^verbatim>\<open>(a / b) * 100\<close> on two counts.\<close>

definition percentage :: "nat \<Rightarrow> nat \<Rightarrow> number" where
  "percentage a b = numMul (numDiv a b) (numOfNat 100)"

subsection \<open>The report controller: dashboard statistics\<close>

record stats =
  totalLeads :: nat
  leadsLast30Days :: nat
  statusCounts :: "string \<rightharpoonup> nat"
  approvalRatio :: number
  rejectionRatio :: number

definition prevMonth :: "int \<times> nat \<Rightarrow> int \<times> nat" where
  "prevMonth ym = (if snd ym = 0 then (fst ym - 1, 11) else (fst ym, snd ym - 1))"

text \<open>\<^verbatim>\<open>setDate(getDate() - 30)\<close>: a day number below 1 rolls back into the months before.\<close>

definition thirtyDaysAgo :: "date \<Rightarrow> date" where
  "thirtyDaysAgo now =
     (let d = int (day now) - 30
      in if 1 \<le> d then now\<lparr>day := nat d\<rparr>
         else let ym1 = prevMonth (year now, month now);
                  d1 = d + int (daysInMonth (fst ym1) (snd ym1))
              in if 1 \<le> d1 then now\<lparr>year := fst ym1, month := snd ym1, day := nat d1\<rparr>
                 else let ym2 = prevMonth ym1
                      in now\<lparr>year := fst ym2, month := snd ym2,
                             day := nat (d1 + int (daysInMonth (fst ym2) (snd ym2)))\<rparr>)"

text \<open>The role-based filter: empty for a SUPER ADMIN, \<^verbatim>\<open>{createdBy: req.user.id}\<close>
  otherwise, where \<^verbatim>\<open>req.user.id\<close> is the caller's id as a string (the handlers compare it
  with \<^verbatim>\<open>lead.createdBy.toString()\<close>). \<^verbatim>\<open>Lead.countDocuments\<close> and \<^verbatim>\<open>Lead.find\<close> cast the
  filter through the schema, so the string selects the leads whose \<^verbatim>\<open>createdBy\<close> is the
  ObjectId it denotes.\<close>

definition roleScoped :: "authUser \<Rightarrow> lead list \<Rightarrow> lead list" where
  "roleScoped usr leads =
     (if authRole usr \<noteq> ''SUPER ADMIN'' then filter (\<lambda>l. createdBy l = authId usr) leads
      else leads)"

text \<open>\<^verbatim>\<open>Lead.aggregate\<close> does not cast its pipeline: Mongoose hands the stages to the server
  as they are. The \<^verbatim>\<open>$match\<close> stage then compares the stored \<^verbatim>\<open>createdBy\<close>, an ObjectId,
  with the string of the filter, and a string is never equal to an ObjectId.\<close>

datatype bson = BsonString string | BsonObjectId objectId

definition aggregateMatch :: "authUser \<Rightarrow> lead list \<Rightarrow> lead list" where
  "aggregateMatch usr leads =
     (if authRole usr \<noteq> ''SUPER ADMIN'' then
        filter (\<lambda>l. BsonObjectId (createdBy l) = BsonString (authId usr)) leads
      else leads)"

text \<open>\<^verbatim>\<open>{ $group: { _id: '$status', count: { $sum: 1 } } }\<close>: one entry for each status that
  occurs.\<close>

definition groupByStatus :: "lead list \<Rightarrow> (string \<times> nat) list" where
  "groupByStatus ls =
     map (\<lambda>s. (s, length (filter (\<lambda>l. status l = s) ls))) (remdups (map status ls))"

definition initialStatusCounts :: "string \<rightharpoonup> nat" where
  "initialStatusCounts =
     [''New'' \<mapsto> 0, ''Follow-up'' \<mapsto> 0, ''Approved'' \<mapsto> 0, ''Rejected'' \<mapsto> 0]"

definition fillStatusCounts :: "(string \<times> nat) list \<Rightarrow> (string \<rightharpoonup> nat) \<Rightarrow> (string \<rightharpoonup> nat)" where
  "fillStatusCounts groups counts = fold (\<lambda>g m. m(fst g \<mapsto> snd g)) groups counts"

definition countOf :: "(string \<rightharpoonup> nat) \<Rightarrow> string \<Rightarrow> nat" where
  "countOf m k = (case m k of Some c \<Rightarrow> c | None \<Rightarrow> 0)"

text \<open>The number of leads of a list that have a given status.\<close>

definition withStatus :: "string \<Rightarrow> lead list \<Rightarrow> nat" where
  "withStatus s ls = length (filter (\<lambda>l. status l = s) ls)"

definition getDashboardStats :: "date \<Rightarrow> authUser \<Rightarrow> lead list \<Rightarrow> stats response" where
  "getDashboardStats now usr leads =
     (let scoped = roleScoped usr leads;
          leadStatusCounts = groupByStatus (aggregateMatch usr leads);
          total = length scoped;
          last30 = length (filter (\<lambda>l. dateLe (thirtyDaysAgo now) (createdAt l)) scoped);
          counts = fillStatusCounts leadStatusCounts initialStatusCounts
      in succeed 200
           (Some \<lparr>totalLeads = total, leadsLast30Days = last30, statusCounts = counts,
                  approvalRatio =
                    (if 0 < total then percentage (countOf counts ''Approved'') total
                     else numOfNat 0),
                  rejectionRatio =
                    (if 0 < total then percentage (countOf counts ''Rejected'') total
                     else numOfNat 0)\<rparr>))"

subsection \<open>The report controller: custom range export\<close>

text \<open>The body of the export request, with its dates parsed. The model selects the leads
  and computes the summary figures; laying them out as CSV text or PDF pages is left to
  the rendering libraries.\<close>

record reportBody =
  startDate :: "date option"
  endDate :: "date option"
  adminId :: "objectId option"
  format :: "string option"

datatype rate = ToFixed2 number | RateText string | RateZero

record customReport =
  crLeads :: "(lead \<times> user option) list"
  crTotalLeads :: nat
  crApprovedCount :: nat
  crRejectedCount :: nat
  crApprovalRate :: rate
  crFormat :: string

definition toLowerChar :: "char \<Rightarrow> char" where
  "toLowerChar c =
     (let n = of_char c :: nat in if 65 \<le> n \<and> n \<le> 90 then char_of (n + 32) else c)"

definition endOfDay :: "date \<Rightarrow> date" where
  "endOfDay d = d\<lparr>hours := 23, minutes := 59, seconds := 59, millis := 999\<rparr>"

definition inRange :: "date \<Rightarrow> date \<Rightarrow> lead \<Rightarrow> bool" where
  "inRange s e l = (dateLe s (createdAt l) \<and> dateLe (createdAt l) (endOfDay e))"

definition creatorFilter :: "authUser \<Rightarrow> objectId option \<Rightarrow> lead \<Rightarrow> bool" where
  "creatorFilter usr aid l =
     (if authRole usr = ''ADMIN'' then createdBy l = authId usr
      else if authRole usr = ''SUPER ADMIN'' \<and> truthy aid then createdBy l = valueOr [] aid
      else True)"

definition downloadCustomReport ::
  "user list \<Rightarrow> authUser \<Rightarrow> reportBody \<Rightarrow> lead list \<Rightarrow> customReport response" where
  "downloadCustomReport users usr body leads =
     (case (startDate body, endDate body) of
        (Some s, Some e) \<Rightarrow>
          (let found =
                 filter (\<lambda>l. inRange s e l \<and> creatorFilter usr (adminId body) l) leads;
               total = length found;
               approved = length (filter (\<lambda>l. status l = ''Approved'') found);
               rejected = length (filter (\<lambda>l. status l = ''Rejected'') found)
           in succeed 200
                (Some \<lparr>crLeads = map (\<lambda>l. (l, findUserById users (createdBy l))) found,
                       crTotalLeads = total, crApprovedCount = approved,
                       crRejectedCount = rejected,
                       crApprovalRate =
                         (if 0 < total then ToFixed2 (percentage approved total)
                          else RateText ''0.00''),
                       crFormat =
                         (if map toLowerChar (valueOr ''csv'' (format body)) = ''pdf'' then ''pdf''
                          else ''csv'')\<rparr>))
      | _ \<Rightarrow> failure 400 (Text ''Please provide a start and end date.''))"

text \<open>The leads that an export response carries; none when the request was refused.\<close>

definition exportedLeads :: "customReport response \<Rightarrow> lead list" where
  "exportedLeads r = (case resData r of Some rep \<Rightarrow> map fst (crLeads rep) | None \<Rightarrow> [])"

subsection \<open>The e-mail sender\<close>

record attachment =
  filename :: string
  content :: string
  contentType :: string

text \<open>The options object a caller hands to \<^verbatim>\<open>sendEmail\<close>.\<close>

record emailOptions =
  email :: string
  subject :: string
  message :: "string option"
  html :: "string option"
  attachments :: "attachment list"

text \<open>The message given to the transport's \<^verbatim>\<open>sendMail\<close>. A key that the object literal
  does not set is \<open>None\<close>, or the empty list for \<^verbatim>\<open>attachments\<close>.\<close>

record mailOptions =
  mailFrom :: string
  mailTo :: string
  mailSubject :: string
  mailText :: "string option"
  mailHtml :: "string option"
  mailAttachments :: "attachment list"

text \<open>\<^verbatim>\<open>sendEmail\<close> builds \<^verbatim>\<open>{from, to, subject, text: options.message}\<close> and awaits the
  transport, which delivers (\<open>True\<close>) or rejects (\<open>False\<close>, the exception of the
  \<^verbatim>\<open>await\<close>). The result carries the message that reached the transport.\<close>

definition sendEmail :: "(mailOptions \<Rightarrow> bool) \<Rightarrow> emailOptions \<Rightarrow> mailOptions \<times> bool" where
  "sendEmail transport options =
     (let mail = \<lparr>mailFrom = ''EBS Cards Admin <admin@ebscards.com>'', mailTo = email options,
                  mailSubject = subject options, mailText = message options,
                  mailHtml = None, mailAttachments = []\<rparr>
      in (mail, transport mail))"

subsection \<open>The report controller: monthly scheduled report\<close>

record reportRow =
  rowName :: string
  rowEmail :: string
  totalCreated :: nat
  approvedCount :: nat
  rejectedCount :: nat
  approvalRate :: rate

text \<open>The collaborators of the job: the locale's \<^verbatim>\<open>toLocaleString\<close> for month and year,
  the spreadsheet and PDF writers (sheet name or title, then the rows, to a buffer) and
  the mail transport.\<close>

record collaborators =
  monthYearString :: "date \<Rightarrow> string"
  writeXlsx :: "string \<Rightarrow> reportRow list \<Rightarrow> string"
  writePdf :: "string \<Rightarrow> reportRow list \<Rightarrow> string"
  sendMail :: "mailOptions \<Rightarrow> bool"

text \<open>What the job does to the outside: console lines and messages handed to the
  transport, in order.\<close>

datatype event = Console string | ConsoleError string | Mail mailOptions

definition usersWithRole :: "string \<Rightarrow> user list \<Rightarrow> user list" where
  "usersWithRole r users = filter (\<lambda>u. userRole u = r) users"

definition monthlyRow :: "date \<Rightarrow> date \<Rightarrow> lead list \<Rightarrow> user \<Rightarrow> reportRow" where
  "monthlyRow lo hi leads admin =
     (let found =
            filter (\<lambda>l. createdBy l = userId admin \<and> dateLe lo (createdAt l)
                        \<and> dateLe (createdAt l) hi) leads;
          total = length found;
          approved = length (filter (\<lambda>l. status l = ''Approved'') found);
          rejected = length (filter (\<lambda>l. status l = ''Rejected'') found)
      in \<lparr>rowName = userName admin, rowEmail = userEmail admin, totalCreated = total,
          approvedCount = approved, rejectedCount = rejected,
          approvalRate =
            (if 0 < total then ToFixed2 (percentage approved total) else RateZero)\<rparr>)"

definition reportData :: "date \<Rightarrow> user list \<Rightarrow> lead list \<Rightarrow> reportRow list" where
  "reportData now users leads =
     (let lastMonth = prevMonth (year now, month now)
      in map (monthlyRow (startOfMonth (fst lastMonth) (snd lastMonth))
                (endOfMonth (fst lastMonth) (snd lastMonth)) leads)
           (usersWithRole ''ADMIN'' users))"

text \<open>\<^verbatim>\<open>String.prototype.replace\<close> with a string pattern replaces the first occurrence.\<close>

fun replaceFirst :: "char \<Rightarrow> char \<Rightarrow> string \<Rightarrow> string" where
  "replaceFirst a b [] = []"
| "replaceFirst a b (c # cs) = (if c = a then b # cs else c # replaceFirst a b cs)"

definition reportEmail :: "string \<Rightarrow> string \<Rightarrow> string \<Rightarrow> user \<Rightarrow> emailOptions" where
  "reportEmail reportMonthString excelBuffer pdfBuffer superAdmin =
     \<lparr>email = userEmail superAdmin,
      subject = ''EBS Cards - Monthly Report for '' @ reportMonthString,
      message = None,
      html = Some (''<p>Please find the consolidated performance report for ''
                   @ reportMonthString @ '' attached.</p>''),
      attachments =
        [\<lparr>filename = ''Report_'' @ replaceFirst CHR '' '' CHR ''_'' reportMonthString @ ''.xlsx'',
          content = excelBuffer,
          contentType = ''application/vnd.openxmlformats-officedocument.spreadsheetml.sheet''\<rparr>,
         \<lparr>filename = ''Report_'' @ replaceFirst CHR '' '' CHR ''_'' reportMonthString @ ''.pdf'',
          content = pdfBuffer, contentType = ''application/pdf''\<rparr>]\<rparr>"

text \<open>The loop over the SUPER ADMIN users. A rejected \<^verbatim>\<open>await sendEmail\<close> leaves the
  loop: the only \<^verbatim>\<open>catch\<close> is the one around the whole job. The flag tells whether the
  loop ran to its end.\<close>

fun sendToAll ::
  "(mailOptions \<Rightarrow> bool) \<Rightarrow> (user \<Rightarrow> emailOptions) \<Rightarrow> user list \<Rightarrow> event list \<times> bool" where
  "sendToAll transport mk [] = ([], True)"
| "sendToAll transport mk (superAdmin # rest) =
     (let sent = sendEmail transport (mk superAdmin)
      in if snd sent then
           (let more = sendToAll transport mk rest
            in (Mail (fst sent)
                # Console (''Monthly report sent to super admin: '' @ userEmail superAdmin)
                # fst more, snd more))
         else ([Mail (fst sent)], False))"

text \<open>The options of the e-mail to one SUPER ADMIN, once the month label and the two
  buffers of the run are made.\<close>

definition monthlyEmail ::
  "collaborators \<Rightarrow> date \<Rightarrow> user list \<Rightarrow> lead list \<Rightarrow> user \<Rightarrow> emailOptions" where
  "monthlyEmail ext now users leads =
     (let lastMonth = prevMonth (year now, month now);
          reportMonthString =
            monthYearString ext (startOfMonth (fst lastMonth) (snd lastMonth));
          rows = reportData now users leads;
          excelBuffer = writeXlsx ext (''Report for '' @ reportMonthString) rows;
          pdfBuffer =
            writePdf ext (''Monthly Performance Report for '' @ reportMonthString) rows
      in reportEmail reportMonthString excelBuffer pdfBuffer)"

definition generateAndSendMonthlyReport ::
  "collaborators \<Rightarrow> date \<Rightarrow> user list \<Rightarrow> lead list \<Rightarrow> event list" where
  "generateAndSendMonthlyReport ext now users leads =
     (let sent = sendToAll (sendMail ext) (monthlyEmail ext now users leads)
                   (usersWithRole ''SUPER ADMIN'' users)
      in Console ''Generating monthly performance report...'' # fst sent
         @ (if snd sent then []
            else [ConsoleError ''Error generating and sending monthly report:'']))"

text \<open>The message that \<^verbatim>\<open>sendEmail\<close> hands to the transport for one SUPER ADMIN.\<close>

definition mailFor ::
  "collaborators \<Rightarrow> date \<Rightarrow> user list \<Rightarrow> lead list \<Rightarrow> user \<Rightarrow> mailOptions" where
  "mailFor ext now users leads u =
     fst (sendEmail (sendMail ext) (monthlyEmail ext now users leads u))"

text \<open>The messages that reached the transport, in order.\<close>

fun mailsOf :: "event list \<Rightarrow> mailOptions list" where
  "mailsOf [] = []"
| "mailsOf (Mail m # es) = m # mailsOf es"
| "mailsOf (e # es) = mailsOf es"

subsection \<open>Sequences of update calls\<close>

text \<open>One \<^verbatim>\<open>PUT /api/leads/:id\<close> request with the clock readings of its handler, and a
  run of such requests, one after the other, against the store.\<close>

record updateCall =
  ucUpdate :: date
  ucPush :: date
  ucSave :: date
  ucUser :: authUser
  ucId :: objectId
  ucBody :: leadBody

definition updateLeadCall :: "updateCall \<Rightarrow> lead list \<Rightarrow> lead response \<times> lead list" where
  "updateLeadCall c leads =
     updateLead (ucUpdate c) (ucPush c) (ucSave c) (ucUser c) (ucId c) (ucBody c) leads"

fun updateLeadCalls :: "updateCall list \<Rightarrow> lead list \<Rightarrow> lead response list \<times> lead list" where
  "updateLeadCalls [] leads = ([], leads)"
| "updateLeadCalls (c # cs) leads =
     (let step = updateLeadCall c leads; more = updateLeadCalls cs (snd step)
      in (fst step # fst more, snd more))"

text \<open>What a body leaves alone. An operator keeps \<^verbatim>\<open>createdBy\<close> when it is a \<^verbatim>\<open>$set\<close>
  without that path, a \<^verbatim>\<open>$push\<close> to the history, or another operator whose effect never
  changes it; likewise for \<^verbatim>\<open>editHistory\<close>, which a non-empty \<^verbatim>\<open>$push\<close> does change.\<close>

fun keepsCreatedBy :: "operator \<Rightarrow> bool" where
  "keepsCreatedBy (SetOp p) = (bCreatedBy p = None)"
| "keepsCreatedBy (PushOp es) = True"
| "keepsCreatedBy (OtherOp f) = (\<forall>l. createdBy (f l) = createdBy l)"

fun keepsHistory :: "operator \<Rightarrow> bool" where
  "keepsHistory (SetOp p) = (bEditHistory p = None)"
| "keepsHistory (PushOp es) = (es = [])"
| "keepsHistory (OtherOp f) = (\<forall>l. editHistory (f l) = editHistory l)"

text \<open>The document as the update write of the call \<open>c\<close> leaves it, before the history
  entry is pushed and saved, and the entry that the call then pushes: \<^verbatim>\<open>previousData\<close> is
  the lead as it was stored before the call, \<^verbatim>\<open>newData\<close> the written document, both
  without \<^verbatim>\<open>editHistory\<close>.\<close>

definition written :: "updateCall \<Rightarrow> lead \<Rightarrow> lead" where
  "written c before = applyUpdate (ucUpdate c) (castBody (ucBody c)) before"

definition historyEntry :: "updateCall \<Rightarrow> lead \<Rightarrow> editEntry" where
  "historyEntry c before =
     \<lparr>editorId = authId (ucUser c), timestamp = ucPush c,
      previousData = leadData.truncate before,
      newData = leadData.truncate (written c before)\<rparr>"

text \<open>Every call of a run writes a document that the validation of its save accepts.\<close>

fun savesPass :: "updateCall list \<Rightarrow> lead list \<Rightarrow> bool" where
  "savesPass [] leads = True"
| "savesPass (c # cs) leads =
     ((case findById leads (ucId c) of
         None \<Rightarrow> True
       | Some l \<Rightarrow> validateDocument (written c l) = [])
      \<and> savesPass cs (snd (updateLeadCall c leads)))"

subsection \<open>Sample data\<close>

definition jan15 :: date where
  "jan15 = \<lparr>year = 2024, month = 0, day = 15, hours = 10, minutes = 0, seconds = 0, millis = 0\<rparr>"

definition jan20 :: date where
  "jan20 = \<lparr>year = 2024, month = 0, day = 20, hours = 9, minutes = 30, seconds = 0, millis = 0\<rparr>"

definition feb01 :: date where
  "feb01 = \<lparr>year = 2024, month = 1, day = 1, hours = 2, minutes = 0, seconds = 0, millis = 0\<rparr>"

definition asha :: user where
  "asha = \<lparr>userId = ''u1'', userName = ''Asha'', userEmail = ''asha@example.com'',
           userRole = ''ADMIN''\<rparr>"

definition bala :: user where
  "bala = \<lparr>userId = ''u2'', userName = ''Bala'', userEmail = ''bala@example.com'',
           userRole = ''ADMIN''\<rparr>"

definition sam :: user where
  "sam = \<lparr>userId = ''u3'', userName = ''Sam'', userEmail = ''sam@example.com'',
          userRole = ''SUPER ADMIN''\<rparr>"

definition tara :: user where
  "tara = \<lparr>userId = ''u4'', userName = ''Tara'', userEmail = ''tara@example.com'',
           userRole = ''SUPER ADMIN''\<rparr>"

definition uma :: user where
  "uma = \<lparr>userId = ''u5'', userName = ''Uma'', userEmail = ''uma@example.com'',
          userRole = ''SUPER ADMIN''\<rparr>"

definition asUser :: "user \<Rightarrow> authUser" where
  "asUser u = \<lparr>authId = userId u, authRole = userRole u\<rparr>"

definition emptyPaths :: leadPaths where
  "emptyPaths =
     \<lparr>bCustomerName = None, bMobileNumber = None, bPanCard = None, bAadharNumber = None,
      bPreferredBank = None, bEmploymentType = None, bMonthlySalary = None, bStatus = None,
      bRejectionReason = None, bRejectionNotes = None, bSource = None, bCreatedBy = None,
      bEditHistory = None, bCreatedAt = None\<rparr>"

definition emptyBody :: leadBody where
  "emptyBody =
     \<lparr>bCustomerName = None, bMobileNumber = None, bPanCard = None, bAadharNumber = None,
      bPreferredBank = None, bEmploymentType = None, bMonthlySalary = None, bStatus = None,
      bRejectionReason = None, bRejectionNotes = None, bSource = None, bCreatedBy = None,
      bEditHistory = None, bCreatedAt = None, bOperators = []\<rparr>"

definition raviBody :: leadBody where
  "raviBody =
     emptyBody\<lparr>bCustomerName := Some ''Ravi Kumar'', bMobileNumber := Some ''9876543210'',
               bPanCard := Some ''ABCDE1234F'', bAadharNumber := Some ''123456789012''\<rparr>"

definition raviLead :: lead where
  "raviLead =
     \<lparr>leadId = ''l1'', customerName = ''Ravi Kumar'', mobileNumber = ''9876543210'',
      panCard = ''ABCDE1234F'', aadharNumber = ''123456789012'', preferredBank = None,
      employmentType = None, monthlySalary = None, status = ''New'', rejectionReason = [],
      rejectionNotes = None, source = ''Manual'', createdBy = ''u1'', createdAt = jan15,
      updatedAt = jan15, version = 0, editHistory = []\<rparr>"

text \<open>A lead submitted through Asha's referral link on 15 January, with the 16-digit
  national-id that path asks for, and a later staff request with the same national-id.\<close>

definition linkBody :: leadBody where
  "linkBody =
     emptyBody\<lparr>bCustomerName := Some ''Meena Rao'', bMobileNumber := Some ''9123456780'',
               bPanCard := Some ''PQRST5678U'', bAadharNumber := Some ''1234567890123456''\<rparr>"

definition linkStore :: "lead list" where
  "linkStore = snd (createLeadFromLink jan15 jan15 ''l1'' [asha, bala] ''u1'' linkBody [])"

definition sameIdBody :: leadBody where
  "sameIdBody =
     emptyBody\<lparr>bCustomerName := Some ''Meena Rao'', bMobileNumber := Some ''9123456780'',
               bPanCard := Some ''VWXYZ4321K'', bAadharNumber := Some ''1234567890123456''\<rparr>"

text \<open>A staff request with Ravi's PAN and another national-id.\<close>

definition samePanBody :: leadBody where
  "samePanBody =
     emptyBody\<lparr>bCustomerName := Some ''R Kumar'', bMobileNumber := Some ''9000000001'',
               bPanCard := Some ''ABCDE1234F'', bAadharNumber := Some ''999999999999''\<rparr>"

text \<open>The last second of January: a lead stored at 23:59:59.500, a request at
  23:59:59.800.\<close>

definition jan31late :: date where
  "jan31late =
     \<lparr>year = 2024, month = 0, day = 31, hours = 23, minutes = 59, seconds = 59, millis = 500\<rparr>"

definition jan31later :: date where
  "jan31later =
     \<lparr>year = 2024, month = 0, day = 31, hours = 23, minutes = 59, seconds = 59, millis = 800\<rparr>"

definition lateLead :: lead where
  "lateLead = raviLead\<lparr>createdAt := jan31late, updatedAt := jan31late\<rparr>"

text \<open>Update requests by Asha on her lead: two status changes, a body that carries an
  empty \<^verbatim>\<open>editHistory\<close>, and a body that carries another \<^verbatim>\<open>createdBy\<close>.\<close>

definition approveCall :: updateCall where
  "approveCall =
     \<lparr>ucUpdate = jan20, ucPush = jan20, ucSave = jan20, ucUser = asUser asha, ucId = ''l1'',
      ucBody = emptyBody\<lparr>bStatus := Some ''Approved''\<rparr>\<rparr>"

definition followUpCall :: updateCall where
  "followUpCall =
     \<lparr>ucUpdate = feb01, ucPush = feb01, ucSave = feb01, ucUser = asUser asha, ucId = ''l1'',
      ucBody = emptyBody\<lparr>bStatus := Some ''Follow-up''\<rparr>\<rparr>"

definition wipeCall :: updateCall where
  "wipeCall =
     \<lparr>ucUpdate = feb01, ucPush = feb01, ucSave = feb01, ucUser = asUser asha, ucId = ''l1'',
      ucBody = emptyBody\<lparr>bEditHistory := Some []\<rparr>\<rparr>"

definition reassignBody :: leadBody where
  "reassignBody = emptyBody\<lparr>bCreatedBy := Some ''u2''\<rparr>"

text \<open>Bodies made of operators: \<^verbatim>\<open>{$set: {createdBy: 'u2'}}\<close>, \<^verbatim>\<open>{$set: {editHistory: []}}\<close>,
  \<^verbatim>\<open>{$push: {editHistory: e}}\<close> for an entry \<open>e\<close> made up by the client,
  \<^verbatim>\<open>{$set: {status: 'Approved'}}\<close> and \<^verbatim>\<open>{$unset: {preferredBank: 1}}\<close>.\<close>

definition setCreatorBody :: leadBody where
  "setCreatorBody = emptyBody\<lparr>bOperators := [SetOp (emptyPaths\<lparr>bCreatedBy := Some ''u2''\<rparr>)]\<rparr>"

definition setHistoryBody :: leadBody where
  "setHistoryBody = emptyBody\<lparr>bOperators := [SetOp (emptyPaths\<lparr>bEditHistory := Some []\<rparr>)]\<rparr>"

definition forgedEntry :: editEntry where
  "forgedEntry =
     \<lparr>editorId = ''u2'', timestamp = jan15, previousData = leadData.truncate raviLead,
      newData = leadData.truncate raviLead\<rparr>"

definition pushHistoryBody :: leadBody where
  "pushHistoryBody = emptyBody\<lparr>bOperators := [PushOp [forgedEntry]]\<rparr>"

definition setStatusBody :: leadBody where
  "setStatusBody = emptyBody\<lparr>bOperators := [SetOp (emptyPaths\<lparr>bStatus := Some ''Approved''\<rparr>)]\<rparr>"

definition unsetBankBody :: leadBody where
  "unsetBankBody = emptyBody\<lparr>bOperators := [OtherOp (\<lambda>l. l\<lparr>preferredBank := None\<rparr>)]\<rparr>"

definition operatorCall :: "leadBody \<Rightarrow> updateCall" where
  "operatorCall b =
     \<lparr>ucUpdate = feb01, ucPush = feb01, ucSave = feb01, ucUser = asUser asha, ucId = ''l1'',
      ucBody = b\<rparr>"

text \<open>A staff request with Ravi's PAN in lower case, and a first request that carries a
  \<^verbatim>\<open>createdAt\<close> of its own, in December.\<close>

definition lowerPanBody :: leadBody where
  "lowerPanBody = samePanBody\<lparr>bPanCard := Some ''abcde1234f''\<rparr>"

definition dec10 :: date where
  "dec10 = \<lparr>year = 2023, month = 11, day = 10, hours = 12, minutes = 0, seconds = 0, millis = 0\<rparr>"

definition backdatedBody :: leadBody where
  "backdatedBody = raviBody\<lparr>bCreatedAt := Some dec10\<rparr>"

text \<open>Ravi's lead stored at 23:59:59.000 of 31 January, the last instant of the window.\<close>

definition jan31edge :: date where
  "jan31edge =
     \<lparr>year = 2024, month = 0, day = 31, hours = 23, minutes = 59, seconds = 59, millis = 0\<rparr>"

definition edgeLead :: lead where
  "edgeLead = raviLead\<lparr>createdAt := jan31edge, updatedAt := jan31edge\<rparr>"


text \<open>A body with a status outside the enum, and one with a nine-digit mobile number.\<close>

definition badStatusBody :: leadBody where
  "badStatusBody = emptyBody\<lparr>bStatus := Some ''Closed''\<rparr>"

definition badMobileBody :: leadBody where
  "badMobileBody = emptyBody\<lparr>bMobileNumber := Some ''987654321''\<rparr>"

text \<open>Ten leads of Asha, three approved and two rejected, and one lead of Bala.\<close>

definition sampleLead :: "objectId \<Rightarrow> string \<Rightarrow> lead" where
  "sampleLead i s = raviLead\<lparr>leadId := i, status := s\<rparr>"

definition tenLeads :: "lead list" where
  "tenLeads =
     [sampleLead ''a1'' ''Approved'', sampleLead ''a2'' ''New'', sampleLead ''a3'' ''Rejected'',
      sampleLead ''a4'' ''Approved'', sampleLead ''a5'' ''Follow-up'', sampleLead ''a6'' ''New'',
      sampleLead ''a7'' ''Rejected'', sampleLead ''a8'' ''Approved'', sampleLead ''a9'' ''New'',
      sampleLead ''a10'' ''Follow-up'']"

definition balaLead :: lead where
  "balaLead = raviLead\<lparr>leadId := ''b1'', createdBy := ''u2'', createdAt := jan20\<rparr>"

definition januaryBody :: reportBody where
  "januaryBody = \<lparr>startDate = Some jan15, endDate = Some jan20, adminId = None, format = None\<rparr>"

text \<open>Collaborators for the run of 1 February 2024 in the English locale: a transport
  that delivers every message, and one that rejects the message to Sam.\<close>

definition delivering :: collaborators where
  "delivering =
     \<lparr>monthYearString = (\<lambda>d. ''January 2024''),
      writeXlsx = (\<lambda>title rows. ''xlsx:'' @ title),
      writePdf = (\<lambda>title rows. ''pdf:'' @ title),
      sendMail = (\<lambda>m. True)\<rparr>"

definition rejectingSam :: collaborators where
  "rejectingSam = delivering\<lparr>sendMail := (\<lambda>m. mailTo m \<noteq> ''sam@example.com'')\<rparr>"

section \<open>Evaluation\<close>

text \<open>The definitions that a concrete run unfolds.\<close>

lemmas string_defs = panRegex_def digitsRegex_def toUpperCase_def toUpperChar_def isDigit_def
  isUpperAZ_def isSpace_def trim_def

lemmas schema_defs = castBody_def castPaths_def validatePaths_def checkPaths_def missingRequired_def
  check_def missing_def applyUpdate_def validateDocument_def
  valueOr_def orElse_def leadCreate_def statusEnum_def employmentTypeEnum_def
  rejectionReasonEnum_def sourceEnum_def applySet_def findByIdAndUpdate_def findById_def
  findUserById_def failure_def succeed_def leadData.truncate_def Let_def

lemmas date_defs = dateLe_def dateKey_def startOfMonth_def endOfMonth_def daysInMonth_def
  isLeapYear_def inMonthWindow_def sameMonth_def validDate_def prevMonth_def

lemmas sample_defs = jan15_def jan20_def feb01_def asha_def bala_def sam_def tara_def uma_def asUser_def
  emptyBody_def raviBody_def raviLead_def linkBody_def sameIdBody_def samePanBody_def
  jan31late_def jan31later_def lateLead_def approveCall_def followUpCall_def wipeCall_def
  reassignBody_def badStatusBody_def badMobileBody_def emptyPaths_def setCreatorBody_def
  setHistoryBody_def forgedEntry_def pushHistoryBody_def setStatusBody_def unsetBankBody_def
  operatorCall_def lowerPanBody_def dec10_def backdatedBody_def jan31edge_def edgeLead_def sampleLead_def tenLeads_def balaLead_def
  januaryBody_def delivering_def rejectingSam_def

lemmas report_defs = usersWithRole_def monthlyRow_def reportData_def reportEmail_def
  monthlyEmail_def generateAndSendMonthlyReport_def sendEmail_def mailFor_def roleScoped_def
  inRange_def endOfDay_def creatorFilter_def downloadCustomReport_def exportedLeads_def
  withStatus_def aggregateMatch_def

section \<open>Properties of the lead controller\<close>

subsection \<open>Store lemmas\<close>

lemma findById_replaceLead:
  "findById leads i = Some l \<Longrightarrow> leadId d = i \<Longrightarrow> findById (replaceLead d leads) i = Some d"
  by (induction leads) (auto simp: findById_def)

lemma findById_leadId: "findById leads i = Some l \<Longrightarrow> leadId l = i"
  by (induction leads) (auto simp: findById_def split: if_splits)

lemma map_replaceLead:
  "findById leads i = Some l \<Longrightarrow> leadId d = i \<Longrightarrow> f d = f l
     \<Longrightarrow> map f (replaceLead d leads) = map f leads"
  by (induction leads) (auto simp: findById_def split: if_splits)

subsection \<open>Ownership\<close>

text \<open>
  Claim C4. When the lead exists, a caller whose role is not SUPER ADMIN and whose id
  differs from the lead's \<^verbatim>\<open>createdBy\<close> gets the 403 response from \<^verbatim>\<open>updateLead\<close> and
  from \<^verbatim>\<open>deleteLead\<close>, and the store is as it was. A SUPER ADMIN passes the check on any
  lead: the update goes on to the schema validators (200, or 400 when they reject the
  body) and the delete removes the lead.
\<close>

theorem ownership_check:
  assumes "findById leads i = Some l"
  shows "(authRole usr \<noteq> ''SUPER ADMIN'' \<and> authId usr \<noteq> createdBy l \<longrightarrow>
            updateLead tU tP tS usr i body leads
              = (failure 403 (Text ''Not authorized to update this lead''), leads)
            \<and> deleteLead usr i leads
              = (failure 403 (Text ''Not authorized to delete this lead''), leads))
       \<and> (authRole usr = ''SUPER ADMIN'' \<longrightarrow>
            resStatus (fst (updateLead tU tP tS usr i body leads))
              = (if validatePaths (castBody body) = [] then 200 else 400)
            \<and> deleteLead usr i leads = (succeed 200 None, deleteOne i leads))"
  using assms
  by (auto simp: updateLead_def deleteLead_def findByIdAndUpdate_def Let_def failure_def
      succeed_def)

theorem ownership_check_witness:
  "updateLead jan20 jan20 jan20 (asUser bala) ''l1'' emptyBody [raviLead]
     = (failure 403 (Text ''Not authorized to update this lead''), [raviLead])
   \<and> deleteLead (asUser bala) ''l1'' [raviLead]
     = (failure 403 (Text ''Not authorized to delete this lead''), [raviLead])
   \<and> resStatus (fst (updateLead jan20 jan20 jan20 (asUser sam) ''l1'' emptyBody [raviLead])) = 200
   \<and> deleteLead (asUser sam) ''l1'' [raviLead] = (succeed 200 None, [])"
proof -
  have found: "findById [raviLead] ''l1'' = Some raviLead"
    by (simp add: findById_def raviLead_def)
  have valid: "validatePaths (castBody emptyBody) = []"
    by (simp add: schema_defs sample_defs)
  show ?thesis
    using ownership_check [OF found, of "asUser bala" jan20 jan20 jan20 emptyBody]
      ownership_check [OF found, of "asUser sam" jan20 jan20 jan20 emptyBody] valid
    by (simp add: asUser_def bala_def sam_def raviLead_def)
qed

subsection \<open>Duplicate detection\<close>

lemma same_month_in_window:
  assumes "validDate t" and "sameMonth t now"
    and "dateLe t (endOfMonth (year now) (month now))"
  shows "inMonthWindow now t"
  using assms
  by (auto simp: inMonthWindow_def validDate_def sameMonth_def dateLe_def dateKey_def
      startOfMonth_def)

lemma digitsRegex_nonempty: "digitsRegex 12 s \<Longrightarrow> s \<noteq> []"
  by (auto simp: digitsRegex_def)

lemma panRegex_nonempty: "panRegex (toUpperCase s) \<Longrightarrow> s \<noteq> []"
  by (auto simp: panRegex_def toUpperCase_def)

text \<open>A string that passes a format check holds no white space, so the \<^verbatim>\<open>trim\<close> setter
  leaves it as it is.\<close>

lemma trim_no_space: "list_all (\<lambda>c. \<not> isSpace c) s \<Longrightarrow> trim s = s"
proof -
  assume clean: "list_all (\<lambda>c. \<not> isSpace c) s"
  have front: "dropWhile isSpace xs = xs" if "list_all (\<lambda>c. \<not> isSpace c) xs" for xs
    using that by (cases xs) simp_all
  have "list_all (\<lambda>c. \<not> isSpace c) (rev s)"
    using clean by (simp add: list_all_iff)
  then show ?thesis
    using clean by (simp add: trim_def front)
qed

lemma digit_not_space: "isDigit c \<Longrightarrow> \<not> isSpace c"
  by (auto simp: isDigit_def isSpace_def)

lemma upper_not_space: "isUpperAZ (toUpperChar c) \<or> isDigit (toUpperChar c) \<Longrightarrow> \<not> isSpace c"
proof
  assume ok: "isUpperAZ (toUpperChar c) \<or> isDigit (toUpperChar c)" and sp: "isSpace c"
  from sp have same: "toUpperChar c = c"
    by (auto simp: isSpace_def toUpperChar_def Let_def)
  from sp have "of_char c \<in> {9, 10, 11, 12, 13, 32 :: nat}"
    by (simp add: isSpace_def)
  moreover from ok same
  have "of_char c \<in> (of_char ` set ''ABCDEFGHIJKLMNOPQRSTUVWXYZ0123456789'' :: nat set)"
    by (auto simp: isUpperAZ_def isDigit_def)
  ultimately show False
    by auto
qed

lemma digitsRegex_trim: "digitsRegex n s \<Longrightarrow> trim s = s"
  by (rule trim_no_space) (auto simp: digitsRegex_def list_all_iff digit_not_space)

lemma panRegex_chars:
  assumes "panRegex s" and "c \<in> set s"
  shows "isUpperAZ c \<or> isDigit c"
proof -
  have tail: "take 4 (drop 5 s) @ drop 9 s = drop 5 s"
    using append_take_drop_id [of 4 "drop 5 s"] by simp
  have "take 5 s @ drop 5 s = s"
    by simp
  with tail have "s = take 5 s @ take 4 (drop 5 s) @ drop 9 s"
    by simp
  then have "set s = set (take 5 s) \<union> set (take 4 (drop 5 s)) \<union> set (drop 9 s)"
    by (metis set_append sup_assoc)
  then have "c \<in> set (take 5 s) \<or> c \<in> set (take 4 (drop 5 s)) \<or> c \<in> set (drop 9 s)"
    using assms(2) by auto
  then show ?thesis
    using assms(1) by (auto simp: panRegex_def list_all_iff)
qed

lemma panRegex_trim: "panRegex (toUpperCase s) \<Longrightarrow> trim s = s"
proof (rule trim_no_space)
  assume pan: "panRegex (toUpperCase s)"
  have "\<not> isSpace c" if "c \<in> set s" for c
  proof -
    have "toUpperChar c \<in> set (toUpperCase s)"
      using that by (simp add: toUpperCase_def)
    from panRegex_chars [OF pan this] show ?thesis
      by (rule upper_not_space)
  qed
  then show "list_all (\<lambda>c. \<not> isSpace c) s"
    by (simp add: list_all_iff)
qed

lemma linkStore_eval:
  "linkStore =
     [\<lparr>leadId = ''l1'', customerName = ''Meena Rao'', mobileNumber = ''9123456780'',
       panCard = ''PQRST5678U'', aadharNumber = ''1234567890123456'', preferredBank = None,
       employmentType = None, monthlySalary = None, status = ''New'', rejectionReason = [],
       rejectionNotes = None, source = ''Link'', createdBy = ''u1'', createdAt = jan15,
       updatedAt = jan15, version = 0, editHistory = []\<rparr>]"
  by (simp add: linkStore_def createLeadFromLink_def checkDuplicateLead_def string_defs
      schema_defs sample_defs)

text \<open>A first request for a customer is stored, with the defaults of the schema and an
  empty history.\<close>

lemma createLead_stores_lead:
  "createLead jan15 jan15 ''l1'' [asha, bala] (asUser asha) raviBody []
     = (succeed 201 (Some raviLead), [raviLead])"
  by (simp add: createLead_def checkDuplicateLead_def string_defs schema_defs sample_defs)

text \<open>
  What the duplicate check does do. A \<^verbatim>\<open>createLead\<close> request whose PAN and national-id
  are present and well formed (the PAN pattern after upper-casing, 12 digits) is rejected,
  and the store is left as it was, whenever some stored lead has the PAN of the request
  in upper case or its national-id and was created in the month of the request, no later
  than 23:59:59.000 of its last day; who created that lead and who sends the request play
  no part. The check finds the first such lead in store order, and when its creator's
  user record exists the response is the 409 conflict that names that creator. A request
  whose PAN or national-id is missing or malformed is answered 400 before the check.
\<close>

lemma duplicate_rejected:
  assumes pan: "bPanCard body = Some pan" and aadhar: "bAadharNumber body = Some aadhar"
    and fmt: "panRegex (toUpperCase pan)" "digitsRegex 12 aadhar"
    and stored: "l \<in> set leads"
    and same: "panCard l = toUpperCase pan \<or> aadharNumber l = aadhar"
    and month: "validDate (createdAt l)" "sameMonth (createdAt l) now"
      "dateLe (createdAt l) (endOfMonth (year now) (month now))"
  shows "snd (createLead now t newId users usr body leads) = leads
       \<and> \<not> resSuccess (fst (createLead now t newId users usr body leads))
       \<and> (\<exists>d. find (duplicateFilter now (toUpperCase pan) aadhar) leads = Some d
              \<and> d \<in> set leads \<and> duplicateFilter now (toUpperCase pan) aadhar d
              \<and> (\<forall>creator. findUserById users (createdBy d) = Some creator \<longrightarrow>
                    fst (createLead now t newId users usr body leads)
                      = failure 409 (Text (duplicateMessage creator))))"
proof -
  let ?hit = "duplicateFilter now (toUpperCase pan) aadhar"
  have "?hit l"
    using same same_month_in_window [OF month] by (simp add: duplicateFilter_def)
  then obtain d where d: "find ?hit leads = Some d"
    using stored by (cases "find ?hit leads") (auto simp: find_None_iff)
  have d_in: "d \<in> set leads" and d_hit: "?hit d"
    using d by (auto simp: find_Some_iff)
  have truthy: "truthy (bPanCard body)" "truthy (bAadharNumber body)"
    using pan aadhar fmt by (simp_all add: panRegex_nonempty digitsRegex_nonempty)
  have cast: "trim pan = pan" "trim aadhar = aadhar"
    using fmt by (simp_all add: panRegex_trim digitsRegex_trim)
  have run: "createLead now t newId users usr body leads
               = (case findUserById users (createdBy d) of
                    None \<Rightarrow> (failure 400 (ErrorMessage (TypeError ''name'')), leads)
                  | Some creator \<Rightarrow> (failure 409 (Text (duplicateMessage creator)), leads))"
    using truthy fmt pan aadhar d cast
    by (simp add: createLead_def checkDuplicateLead_def valueOr_def split: option.splits)
  show ?thesis
    using d d_in d_hit run by (auto simp: failure_def split: option.splits)
qed

lemma malformed_request_refused:
  assumes "\<not> truthy (bPanCard body) \<or> \<not> truthy (bAadharNumber body)
           \<or> \<not> panRegex (toUpperCase (valueOr [] (bPanCard body)))
           \<or> \<not> digitsRegex 12 (valueOr [] (bAadharNumber body))"
  shows "resStatus (fst (createLead now t newId users usr body leads)) = 400
       \<and> snd (createLead now t newId users usr body leads) = leads"
  using assms by (auto simp: createLead_def failure_def)

text \<open>Runs of the check: Bala repeats the PAN of Asha's lead five days later, in upper
  and in lower case, and on the last day of the month a request meets a lead stored at
  23:59:59.000.\<close>

lemma duplicate_conflict_example:
  "createLead jan20 jan20 ''l2'' [asha, bala] (asUser bala) samePanBody [raviLead]
     = (failure 409 (Text (duplicateMessage asha)), [raviLead])
   \<and> createLead jan31later jan31later ''l2'' [asha, bala] (asUser bala) samePanBody [edgeLead]
     = (failure 409 (Text (duplicateMessage asha)), [edgeLead])"
  by (simp add: createLead_def checkDuplicateLead_def duplicateFilter_def string_defs
      schema_defs date_defs sample_defs)

lemma toUpperCase_lower_pan: "toUpperCase ''abcde1234f'' = ''ABCDE1234F''"
  by code_simp

lemma lower_case_pan_conflict:
  "createLead jan20 jan20 ''l2'' [asha, bala] (asUser bala) lowerPanBody [raviLead]
     = (failure 409 (Text (duplicateMessage asha)), [raviLead])"
  by (simp add: createLead_def checkDuplicateLead_def duplicateFilter_def toUpperCase_lower_pan
      panRegex_def isUpperAZ_def isDigit_def isSpace_def trim_def digitsRegex_def
      schema_defs date_defs sample_defs)

text \<open>The format check comes first: a staff request that repeats the 16-digit
  national-id of a lead from the referral link is answered 400.\<close>

lemma link_national_id_stops_at_format_check:
  "map aadharNumber linkStore = [''1234567890123456'']
   \<and> bAadharNumber sameIdBody = Some ''1234567890123456''
   \<and> createLead jan20 jan20 ''l2'' [asha, bala] (asUser bala) sameIdBody linkStore
       = (failure 400 (Text ''Invalid Aadhar card format. It should be 12 digits.''), linkStore)"
  by (simp add: linkStore_eval createLead_def string_defs sample_defs valueOr_def)

text \<open>
  Claim C1 does not hold of the code. The window of the check ends at
  \<^verbatim>\<open>new Date(y, m + 1, 0, 23, 59, 59)\<close>, that is at 23:59:59.000 of the last day of the
  month, where the end of a day in the export is set with \<^verbatim>\<open>setHours(23, 59, 59, 999)\<close>.
  Asha's lead is stored on 31 January at 23:59:59.500; Bala's well-formed request with
  the same PAN arrives at 23:59:59.800 of the same day. The stored lead is outside the
  window, the check finds nothing, the answer is 201 and a second lead with that PAN is
  stored in the same calendar month.
\<close>

theorem month_end_window_gap:
  "map panCard [lateLead] = [''ABCDE1234F''] \<and> bPanCard samePanBody = Some ''ABCDE1234F''
   \<and> validDate (createdAt lateLead) \<and> validDate jan31later
   \<and> sameMonth (createdAt lateLead) jan31later
   \<and> checkDuplicateLead jan31later [asha, bala] [lateLead] ''ABCDE1234F'' ''999999999999'' = None
   \<and> resStatus (fst (createLead jan31later jan31later ''l2'' [asha, bala] (asUser bala)
                        samePanBody [lateLead])) = 201
   \<and> map panCard (snd (createLead jan31later jan31later ''l2'' [asha, bala] (asUser bala)
                          samePanBody [lateLead]))
       = [''ABCDE1234F'', ''ABCDE1234F'']
   \<and> map createdBy (snd (createLead jan31later jan31later ''l2'' [asha, bala] (asUser bala)
                            samePanBody [lateLead]))
       = [''u1'', ''u2'']"
  by (simp add: createLead_def checkDuplicateLead_def duplicateFilter_def string_defs
      schema_defs date_defs sample_defs)

text \<open>The request of that run passes the presence check and the two format checks of the
  handler, so it is the duplicate check that lets it through: the store grows from one
  lead to two.\<close>

theorem month_end_window_gap_witness:
  "truthy (bPanCard samePanBody) \<and> truthy (bAadharNumber samePanBody)
   \<and> panRegex (toUpperCase (valueOr [] (bPanCard samePanBody)))
   \<and> digitsRegex 12 (valueOr [] (bAadharNumber samePanBody))
   \<and> length [lateLead] = 1
   \<and> length (snd (createLead jan31later jan31later ''l2'' [asha, bala] (asUser bala)
                       samePanBody [lateLead])) = 2"
proof -
  let ?store = "snd (createLead jan31later jan31later ''l2'' [asha, bala] (asUser bala)
                       samePanBody [lateLead])"
  have pans: "map panCard ?store = [''ABCDE1234F'', ''ABCDE1234F'']"
    using month_end_window_gap by blast
  have "length ?store = length (map panCard ?store)"
    by simp
  also have "\<dots> = 2"
    unfolding pans by simp
  finally have two: "length ?store = 2" .
  have checks: "truthy (bPanCard samePanBody) \<and> truthy (bAadharNumber samePanBody)
                \<and> panRegex (toUpperCase (valueOr [] (bPanCard samePanBody)))
                \<and> digitsRegex 12 (valueOr [] (bAadharNumber samePanBody))"
    by (simp add: string_defs valueOr_def sample_defs)
  show ?thesis
    using two checks by simp
qed

text \<open>Two more ways past the check. When the creator of the conflicting lead has been
  deleted, populating gives \<^verbatim>\<open>null\<close>, building the message throws, and the answer is 400
  (the store is unchanged). And a first request that carries a \<^verbatim>\<open>createdAt\<close> of an earlier
  month is stored with it, so a repeat in the month of that request is not found.\<close>

lemma duplicate_of_deleted_creator:
  "createLead jan20 jan20 ''l2'' [bala] (asUser bala) samePanBody [raviLead]
     = (failure 400 (ErrorMessage (TypeError ''name'')), [raviLead])"
  by (simp add: createLead_def checkDuplicateLead_def duplicateFilter_def string_defs
      schema_defs date_defs sample_defs)

lemma backdated_lead_escapes_check:
  "map createdAt (snd (createLead jan15 jan15 ''l1'' [asha, bala] (asUser asha) backdatedBody []))
     = [dec10]
   \<and> map panCard
       (snd (createLead jan20 jan20 ''l2'' [asha, bala] (asUser bala) samePanBody
               (snd (createLead jan15 jan15 ''l1'' [asha, bala] (asUser asha) backdatedBody []))))
     = [''ABCDE1234F'', ''ABCDE1234F'']"
  by (simp add: createLead_def checkDuplicateLead_def duplicateFilter_def string_defs
      schema_defs date_defs sample_defs)

subsection \<open>Updates: the creator reference\<close>

lemma castBody_createdBy [simp]: "bCreatedBy (castBody b) = bCreatedBy b"
  by (simp add: castBody_def castPaths_def)

lemma castBody_editHistory [simp]: "bEditHistory (castBody b) = bEditHistory b"
  by (simp add: castBody_def castPaths_def)

lemma castBody_status [simp]: "bStatus (castBody b) = bStatus b"
  by (simp add: castBody_def castPaths_def)

lemma castBody_mobileNumber [simp]: "bMobileNumber (castBody b) = bMobileNumber b"
  by (simp add: castBody_def castPaths_def)

lemma castBody_operators [simp]: "bOperators (castBody b) = map castOperator (bOperators b)"
  by (simp add: castBody_def)

lemma castOperator_keepsCreatedBy [simp]: "keepsCreatedBy (castOperator op) = keepsCreatedBy op"
  by (cases op) (simp_all add: castPaths_def)

lemma castOperator_keepsHistory [simp]: "keepsHistory (castOperator op) = keepsHistory op"
  by (cases op) (simp_all add: castPaths_def)

text \<open>No update writes \<^verbatim>\<open>_id\<close>.\<close>

lemma applyOperator_leadId [simp]: "leadId (applyOperator t op l) = leadId l"
  by (cases op) (simp_all add: applySet_def)

lemma fold_applyOperator_leadId [simp]: "leadId (fold (applyOperator t) ops l) = leadId l"
  by (induction ops arbitrary: l) simp_all

lemma applyUpdate_leadId [simp]: "leadId (applyUpdate t b l) = leadId l"
  by (simp add: applyUpdate_def applySet_def)

lemma applyUpdate_updatedAt [simp]: "updatedAt (applyUpdate t b l) = t"
  by (simp add: applyUpdate_def applySet_def)

text \<open>An update document whose plain keys and operators leave \<^verbatim>\<open>createdBy\<close> alone writes
  a document with the same \<^verbatim>\<open>createdBy\<close>.\<close>

lemma applyOperator_createdBy:
  "keepsCreatedBy op \<Longrightarrow> createdBy (applyOperator t op l) = createdBy l"
  by (cases op) (simp_all add: applySet_def valueOr_def)

lemma fold_applyOperator_createdBy:
  "list_all keepsCreatedBy ops \<Longrightarrow> createdBy (fold (applyOperator t) ops l) = createdBy l"
  by (induction ops arbitrary: l) (simp_all add: applyOperator_createdBy)

lemma applyUpdate_createdBy:
  assumes "bCreatedBy body = None" and "list_all keepsCreatedBy (bOperators body)"
  shows "createdBy (applyUpdate t (castBody body) l) = createdBy l"
proof -
  have "list_all keepsCreatedBy (map castOperator (bOperators body))"
    using assms(2) by (simp add: list_all_iff)
  then show ?thesis
    using assms(1) by (simp add: applyUpdate_def applySet_def valueOr_def
        fold_applyOperator_createdBy)
qed

lemma updateLead_createdBy:
  assumes "bCreatedBy body = None" and "list_all keepsCreatedBy (bOperators body)"
  shows "map createdBy (snd (updateLead tU tP tS usr i body leads)) = map createdBy leads"
proof (cases "findById leads i")
  case None
  then show ?thesis by (simp add: updateLead_def)
next
  case (Some l)
  let ?l' = "applyUpdate tU (castBody body) l"
  have id': "leadId ?l' = i"
    using findById_leadId [OF Some] by simp
  have cb: "createdBy ?l' = createdBy l"
    using assms by (rule applyUpdate_createdBy)
  have step1: "map createdBy (replaceLead ?l' leads) = map createdBy leads"
    using map_replaceLead [OF Some id', of createdBy] cb by simp
  have found': "findById (replaceLead ?l' leads) i = Some ?l'"
    by (rule findById_replaceLead [OF Some id'])
  show ?thesis
    using Some step1 map_replaceLead [OF found', of _ createdBy] id' cb
    by (auto simp: updateLead_def findByIdAndUpdate_def Let_def)
qed

text \<open>
  Claim C2, as the code has it. \<^verbatim>\<open>updateLead\<close> hands the whole request body to
  \<^verbatim>\<open>findByIdAndUpdate\<close>, \<^verbatim>\<open>createdBy\<close> is an ordinary path of the schema, and the body may
  carry update operators. Through every sequence of update calls whose bodies neither
  carry a \<^verbatim>\<open>createdBy\<close> key nor an operator that writes \<^verbatim>\<open>createdBy\<close>, whatever else they
  carry and whether they are accepted or not, the \<^verbatim>\<open>createdBy\<close> of every stored lead stays
  what it was: the handler itself never writes it.
\<close>

theorem createdBy_kept_without_key:
  assumes "\<forall>c \<in> set calls. bCreatedBy (ucBody c) = None
                           \<and> list_all keepsCreatedBy (bOperators (ucBody c))"
  shows "map createdBy (snd (updateLeadCalls calls leads)) = map createdBy leads"
  using assms
proof (induction calls arbitrary: leads)
  case Nil
  then show ?case by simp
next
  case (Cons c cs)
  have "map createdBy (snd (updateLeadCall c leads)) = map createdBy leads"
    using Cons.prems by (simp add: updateLeadCall_def updateLead_createdBy)
  then show ?case
    using Cons by (simp add: Let_def)
qed

theorem createdBy_kept_without_key_witness:
  "map createdBy
     (snd (updateLeadCalls
             [approveCall, operatorCall setStatusBody, operatorCall pushHistoryBody,
              operatorCall unsetBankBody, followUpCall] [raviLead]))
     = [''u1'']"
proof -
  have "\<forall>c \<in> set [approveCall, operatorCall setStatusBody, operatorCall pushHistoryBody,
                   operatorCall unsetBankBody, followUpCall].
          bCreatedBy (ucBody c) = None \<and> list_all keepsCreatedBy (bOperators (ucBody c))"
    by (simp add: sample_defs)
  from createdBy_kept_without_key [OF this, of "[raviLead]"] show ?thesis
    by (simp add: sample_defs)
qed

text \<open>The claim as stated fails: an accepted update whose body carries \<^verbatim>\<open>createdBy\<close>
  moves the lead to that user.\<close>

theorem createdBy_changed_counterexample:
  "map createdBy [raviLead] = [''u1'']
   \<and> resStatus (fst (updateLead jan20 jan20 jan20 (asUser asha) ''l1'' reassignBody [raviLead]))
       = 200
   \<and> map createdBy (snd (updateLead jan20 jan20 jan20 (asUser asha) ''l1'' reassignBody
                            [raviLead]))
       = [''u2'']"
  by (simp add: updateLead_def schema_defs sample_defs)

text \<open>So does an accepted update that names the path in a \<^verbatim>\<open>$set\<close> operator and carries
  no \<^verbatim>\<open>createdBy\<close> key.\<close>

lemma createdBy_changed_by_set_operator:
  "bCreatedBy setCreatorBody = None
   \<and> resStatus (fst (updateLead jan20 jan20 jan20 (asUser asha) ''l1'' setCreatorBody [raviLead]))
       = 200
   \<and> map createdBy (snd (updateLead jan20 jan20 jan20 (asUser asha) ''l1'' setCreatorBody
                            [raviLead]))
       = [''u2'']"
  by (simp add: updateLead_def schema_defs sample_defs)

subsection \<open>Updates: rejected bodies\<close>



subsection \<open>Updates: the edit history\<close>

lemma applyOperator_history:
  "keepsHistory op \<Longrightarrow> editHistory (applyOperator t op l) = editHistory l"
  by (cases op) (simp_all add: applySet_def valueOr_def)

lemma fold_applyOperator_history:
  "list_all keepsHistory ops \<Longrightarrow> editHistory (fold (applyOperator t) ops l) = editHistory l"
  by (induction ops arbitrary: l) (simp_all add: applyOperator_history)

lemma applyUpdate_history:
  assumes "bEditHistory body = None" and "list_all keepsHistory (bOperators body)"
  shows "editHistory (applyUpdate t (castBody body) l) = editHistory l"
proof -
  have "list_all keepsHistory (map castOperator (bOperators body))"
    using assms(2) by (simp add: list_all_iff)
  then show ?thesis
    using assms(1) by (simp add: applyUpdate_def applySet_def valueOr_def
        fold_applyOperator_history)
qed

text \<open>One accepted update whose body leaves \<^verbatim>\<open>editHistory\<close> alone: the stored lead is the
  written document with exactly one more entry, at the end, and with the stamp and the
  version key of the save.\<close>

lemma updateLead_ok_step:
  assumes found: "findById leads i = Some l"
    and nohist: "bEditHistory body = None" "list_all keepsHistory (bOperators body)"
    and ok: "resStatus (fst (updateLead tU tP tS usr i body leads)) = 200"
  shows "findById (snd (updateLead tU tP tS usr i body leads)) i
           = Some ((applyUpdate tU (castBody body) l)
                    \<lparr>editHistory :=
                       editHistory l
                       @ [\<lparr>editorId = authId usr, timestamp = tP,
                           previousData = leadData.truncate l,
                           newData = leadData.truncate (applyUpdate tU (castBody body) l)\<rparr>],
                     updatedAt := tS,
                     version := Suc (version (applyUpdate tU (castBody body) l))\<rparr>)"
proof -
  let ?w = "applyUpdate tU (castBody body) l"
  let ?saved = "?w\<lparr>editHistory :=
                      editHistory ?w
                      @ [\<lparr>editorId = authId usr, timestamp = tP,
                          previousData = leadData.truncate l, newData = leadData.truncate ?w\<rparr>],
                    updatedAt := tS, version := Suc (version ?w)\<rparr>"
  have auth: "\<not> (createdBy l \<noteq> authId usr \<and> authRole usr \<noteq> ''SUPER ADMIN'')"
    using found ok by (auto simp: updateLead_def failure_def split: if_splits)
  have valid: "validatePaths (castBody body) = []"
    using found ok auth
    by (auto simp: updateLead_def findByIdAndUpdate_def Let_def failure_def split: if_splits)
  have res: "snd (updateLead tU tP tS usr i body leads)
               = replaceLead ?saved (replaceLead ?w leads)"
    using found auth valid by (auto simp: updateLead_def findByIdAndUpdate_def Let_def)
  have id': "leadId ?w = i"
    using findById_leadId [OF found] by simp
  have found': "findById (replaceLead ?w leads) i = Some ?w"
    by (rule findById_replaceLead [OF found id'])
  have ids: "leadId ?saved = i"
    using id' by simp
  have found'': "findById (replaceLead ?saved (replaceLead ?w leads)) i = Some ?saved"
    by (rule findById_replaceLead [OF found' ids])
  have hist: "editHistory ?w = editHistory l"
    using nohist by (rule applyUpdate_history)
  show ?thesis
    using res found'' hist by simp
qed

lemma updateLeadCalls_append:
  "updateLeadCalls (xs @ ys) leads
     = (fst (updateLeadCalls xs leads) @ fst (updateLeadCalls ys (snd (updateLeadCalls xs leads))),
        snd (updateLeadCalls ys (snd (updateLeadCalls xs leads))))"
  by (induction xs arbitrary: leads) (simp_all add: Let_def)

lemma createLead_history:
  assumes "bEditHistory body = None"
  shows "snd (createLead now t newId users usr body leads) = leads
         \<or> (\<exists>n. snd (createLead now t newId users usr body leads) = leads @ [n]
                \<and> editHistory n = [])"
  using assms
  by (auto simp: createLead_def leadCreate_def castPaths_def Let_def valueOr_def
      split: option.splits if_splits)

text \<open>
  Claim C3, as the code has it, for request bodies that neither carry an \<^verbatim>\<open>editHistory\<close>
  key nor an update operator that writes \<^verbatim>\<open>editHistory\<close>, and that write documents which
  the validation of the save accepts. After \<open>N\<close> accepted \<^verbatim>\<open>updateLead\<close> calls on a
  lead, its history is the history it had before followed by \<open>N\<close> new entries in call
  order. The entry of the \<open>k\<close>-th call names the caller as
  editor; its \<^verbatim>\<open>previousData\<close> is the stored lead just before that call without its
  history; its \<^verbatim>\<open>newData\<close> is the document that the update write of that call returned,
  without its history, and the stored lead just after the call, without its history, is
  that \<^verbatim>\<open>newData\<close> except for \<^verbatim>\<open>updatedAt\<close> and the version key, which the save after the
  snapshot sets again. A create call stores at most one new lead, with an empty history,
  and leaves the stored leads as they are.
\<close>

theorem edit_history_after_updates:
  assumes found: "findById leads i = Some l"
    and calls: "\<forall>c \<in> set calls. ucId c = i \<and> bEditHistory (ucBody c) = None
                                \<and> list_all keepsHistory (bOperators (ucBody c))"
    and saves: "savesPass calls leads"
    and accepted: "\<forall>r \<in> set (fst (updateLeadCalls calls leads)). resStatus r = 200"
  shows "(\<exists>final. findById (snd (updateLeadCalls calls leads)) i = Some final
               \<and> length (editHistory final) = length (editHistory l) + length calls
               \<and> take (length (editHistory l)) (editHistory final) = editHistory l
               \<and> (\<forall>k < length calls. \<exists>before after.
                     findById (snd (updateLeadCalls (take k calls) leads)) i = Some before
                     \<and> findById (snd (updateLeadCalls (take (Suc k) calls) leads)) i = Some after
                     \<and> editHistory final ! (length (editHistory l) + k)
                         = historyEntry (calls ! k) before
                     \<and> leadData.truncate after
                         = (leadData.truncate (written (calls ! k) before))
                             \<lparr>updatedAt := ucSave (calls ! k),
                              version := Suc (version (written (calls ! k) before))\<rparr>))
       \<and> (bEditHistory body = None \<longrightarrow>
             snd (createLead now t newId users usr body leads) = leads
             \<or> (\<exists>n. snd (createLead now t newId users usr body leads) = leads @ [n]
                    \<and> editHistory n = []))"
proof -
  have "\<exists>final. findById (snd (updateLeadCalls calls leads)) i = Some final
               \<and> length (editHistory final) = length (editHistory l) + length calls
               \<and> take (length (editHistory l)) (editHistory final) = editHistory l
               \<and> (\<forall>k < length calls. \<exists>before after.
                     findById (snd (updateLeadCalls (take k calls) leads)) i = Some before
                     \<and> findById (snd (updateLeadCalls (take (Suc k) calls) leads)) i = Some after
                     \<and> editHistory final ! (length (editHistory l) + k)
                         = historyEntry (calls ! k) before
                     \<and> leadData.truncate after
                         = (leadData.truncate (written (calls ! k) before))
                             \<lparr>updatedAt := ucSave (calls ! k),
                              version := Suc (version (written (calls ! k) before))\<rparr>)"
    using calls accepted
  proof (induction calls rule: rev_induct)
    case Nil
    then show ?case using found by simp
  next
    case (snoc c cs)
    let ?n = "length (editHistory l)"
    let ?mid = "snd (updateLeadCalls cs leads)"
    have calls_cs: "\<forall>c \<in> set cs. ucId c = i \<and> bEditHistory (ucBody c) = None
                                  \<and> list_all keepsHistory (bOperators (ucBody c))"
      using snoc.prems(1) by simp
    have ok_cs: "\<forall>r \<in> set (fst (updateLeadCalls cs leads)). resStatus r = 200"
      using snoc.prems(2) by (simp add: updateLeadCalls_append)
    have ok_c: "resStatus (fst (updateLeadCall c ?mid)) = 200"
      using snoc.prems(2) by (simp add: updateLeadCalls_append Let_def)
    have c_id: "ucId c = i" and c_hist: "bEditHistory (ucBody c) = None"
      "list_all keepsHistory (bOperators (ucBody c))"
      using snoc.prems(1) by simp_all
    from snoc.IH [OF calls_cs ok_cs] obtain mid where
      mid: "findById ?mid i = Some mid"
      and mid_len: "length (editHistory mid) = ?n + length cs"
      and mid_take: "take ?n (editHistory mid) = editHistory l"
      and mid_entries: "\<forall>k < length cs. \<exists>before after.
          findById (snd (updateLeadCalls (take k cs) leads)) i = Some before
          \<and> findById (snd (updateLeadCalls (take (Suc k) cs) leads)) i = Some after
          \<and> editHistory mid ! (?n + k) = historyEntry (cs ! k) before
          \<and> leadData.truncate after
              = (leadData.truncate (written (cs ! k) before))
                  \<lparr>updatedAt := ucSave (cs ! k),
                   version := Suc (version (written (cs ! k) before))\<rparr>"
      by blast
    have ok_c': "resStatus (fst (updateLead (ucUpdate c) (ucPush c) (ucSave c) (ucUser c) i
                                   (ucBody c) ?mid)) = 200"
      using ok_c c_id by (simp add: updateLeadCall_def)
    define final where
      "final = (written c mid)
                 \<lparr>editHistory := editHistory mid @ [historyEntry c mid],
                  updatedAt := ucSave c, version := Suc (version (written c mid))\<rparr>"
    have fin: "findById (snd (updateLeadCall c ?mid)) i = Some final"
      using updateLead_ok_step [OF mid c_hist ok_c'] c_id
      by (simp add: updateLeadCall_def historyEntry_def written_def final_def)
    have fin_hist: "editHistory final = editHistory mid @ [historyEntry c mid]"
      by (simp add: final_def)
    have fin_data: "leadData.truncate final
                      = (leadData.truncate (written c mid))
                          \<lparr>updatedAt := ucSave c, version := Suc (version (written c mid))\<rparr>"
      by (simp add: final_def leadData.truncate_def)
    have store: "snd (updateLeadCalls (cs @ [c]) leads) = snd (updateLeadCall c ?mid)"
      by (simp add: updateLeadCalls_append Let_def)
    have entries: "\<exists>before after.
          findById (snd (updateLeadCalls (take k (cs @ [c])) leads)) i = Some before
          \<and> findById (snd (updateLeadCalls (take (Suc k) (cs @ [c])) leads)) i = Some after
          \<and> editHistory final ! (?n + k) = historyEntry ((cs @ [c]) ! k) before
          \<and> leadData.truncate after
              = (leadData.truncate (written ((cs @ [c]) ! k) before))
                  \<lparr>updatedAt := ucSave ((cs @ [c]) ! k),
                   version := Suc (version (written ((cs @ [c]) ! k) before))\<rparr>"
      if k: "k < length (cs @ [c])" for k
    proof (cases "k < length cs")
      case True
      then obtain before after where
        b: "findById (snd (updateLeadCalls (take k cs) leads)) i = Some before"
        and a: "findById (snd (updateLeadCalls (take (Suc k) cs) leads)) i = Some after"
        and e: "editHistory mid ! (?n + k) = historyEntry (cs ! k) before"
        and d: "leadData.truncate after
                  = (leadData.truncate (written (cs ! k) before))
                      \<lparr>updatedAt := ucSave (cs ! k),
                       version := Suc (version (written (cs ! k) before))\<rparr>"
        using mid_entries by blast
      have "editHistory final ! (?n + k) = editHistory mid ! (?n + k)"
        using True mid_len fin_hist by (simp add: nth_append)
      then show ?thesis
        using True b a e d by (auto simp: nth_append)
    next
      case False
      then have keq: "k = length cs" using k by simp
      have "editHistory final ! (?n + k) = historyEntry c mid"
        using keq mid_len fin_hist by (simp add: nth_append)
      then show ?thesis
        using keq mid fin store fin_data by simp
    qed
    show ?case
      using fin store fin_hist mid_len mid_take entries by auto
  qed
  then show ?thesis
    using createLead_history by blast
qed

theorem edit_history_after_updates_witness:
  "(\<exists>final. findById (snd (updateLeadCalls [approveCall, operatorCall unsetBankBody]
                                  [raviLead])) ''l1'' = Some final
           \<and> length (editHistory final) = 2
           \<and> (\<exists>before after.
                 findById (snd (updateLeadCalls [approveCall] [raviLead])) ''l1'' = Some before
                 \<and> findById (snd (updateLeadCalls [approveCall, operatorCall unsetBankBody]
                                     [raviLead])) ''l1'' = Some after
                 \<and> editHistory final ! 1 = historyEntry (operatorCall unsetBankBody) before
                 \<and> leadData.truncate after
                     = (leadData.truncate (written (operatorCall unsetBankBody) before))
                         \<lparr>updatedAt := feb01,
                          version := Suc (version (written (operatorCall unsetBankBody)
                                                     before))\<rparr>))
   \<and> (snd (createLead jan20 jan20 ''l2'' [asha, bala] (asUser bala) samePanBody [raviLead])
         = [raviLead]
       \<or> (\<exists>n. snd (createLead jan20 jan20 ''l2'' [asha, bala] (asUser bala) samePanBody
                      [raviLead]) = [raviLead] @ [n]
              \<and> editHistory n = []))"
proof -
  let ?calls = "[approveCall, operatorCall unsetBankBody]"
  have found: "findById [raviLead] ''l1'' = Some raviLead"
    by (simp add: findById_def sample_defs)
  have calls: "\<forall>c \<in> set ?calls. ucId c = ''l1'' \<and> bEditHistory (ucBody c) = None
                                     \<and> list_all keepsHistory (bOperators (ucBody c))"
    by (simp add: sample_defs)
  have saves: "savesPass ?calls [raviLead]"
    by (simp add: written_def updateLeadCall_def updateLead_def schema_defs string_defs
        sample_defs)
  have accepted: "\<forall>r \<in> set (fst (updateLeadCalls ?calls [raviLead])). resStatus r = 200"
    by (simp add: updateLeadCall_def updateLead_def schema_defs string_defs sample_defs)
  have nohist: "bEditHistory samePanBody = None"
    by (simp add: sample_defs)
  from edit_history_after_updates [OF found calls saves accepted,
      of samePanBody jan20 jan20 "''l2''" "[asha, bala]" "asUser bala"] nohist
  obtain final where
    fin: "findById (snd (updateLeadCalls ?calls [raviLead])) ''l1'' = Some final"
    and len: "length (editHistory final) = length (editHistory raviLead) + 2"
    and entries: "\<forall>k < 2. \<exists>before after.
        findById (snd (updateLeadCalls (take k ?calls) [raviLead])) ''l1'' = Some before
        \<and> findById (snd (updateLeadCalls (take (Suc k) ?calls) [raviLead])) ''l1'' = Some after
        \<and> editHistory final ! (length (editHistory raviLead) + k)
            = historyEntry (?calls ! k) before
        \<and> leadData.truncate after
            = (leadData.truncate (written (?calls ! k) before))
                \<lparr>updatedAt := ucSave (?calls ! k),
                 version := Suc (version (written (?calls ! k) before))\<rparr>"
    and created: "snd (createLead jan20 jan20 ''l2'' [asha, bala] (asUser bala) samePanBody
                         [raviLead]) = [raviLead]
       \<or> (\<exists>n. snd (createLead jan20 jan20 ''l2'' [asha, bala] (asUser bala) samePanBody
                      [raviLead]) = [raviLead] @ [n]
              \<and> editHistory n = [])"
    by auto
  have empty: "editHistory raviLead = []"
    by (simp add: sample_defs)
  have one: "(1::nat) < 2"
    by simp
  from entries [rule_format, OF one] have second: "\<exists>before after.
        findById (snd (updateLeadCalls [approveCall] [raviLead])) ''l1'' = Some before
        \<and> findById (snd (updateLeadCalls ?calls [raviLead])) ''l1'' = Some after
        \<and> editHistory final ! 1 = historyEntry (operatorCall unsetBankBody) before
        \<and> leadData.truncate after
            = (leadData.truncate (written (operatorCall unsetBankBody) before))
                \<lparr>updatedAt := feb01,
                 version := Suc (version (written (operatorCall unsetBankBody) before))\<rparr>"
    using empty by (simp add: operatorCall_def)
  show ?thesis
    using fin len empty second created by auto
qed

text \<open>The claim as stated fails: a body that carries \<^verbatim>\<open>editHistory\<close> replaces the
  history before the new entry is pushed, so two accepted updates can leave one entry.\<close>

theorem edit_history_counterexample:
  "map resStatus (fst (updateLeadCalls [approveCall, wipeCall] [raviLead])) = [200, 200]
   \<and> map (length \<circ> editHistory) (snd (updateLeadCalls [approveCall, wipeCall] [raviLead])) = [1]"
  by (simp add: updateLeadCall_def updateLead_def schema_defs string_defs sample_defs)

text \<open>The same happens when the body names the path in a \<^verbatim>\<open>$set\<close> operator and carries no
  \<^verbatim>\<open>editHistory\<close> key; and a \<^verbatim>\<open>$push\<close> of the body adds an entry of the client's making,
  here one that names Bala as the editor of a lead that only Asha has edited.\<close>

lemma history_replaced_by_set_operator:
  "bEditHistory setHistoryBody = None
   \<and> map resStatus (fst (updateLeadCalls [approveCall, operatorCall setHistoryBody] [raviLead]))
       = [200, 200]
   \<and> map (length \<circ> editHistory)
       (snd (updateLeadCalls [approveCall, operatorCall setHistoryBody] [raviLead])) = [1]"
  by (simp add: updateLeadCall_def updateLead_def schema_defs string_defs sample_defs)

lemma history_pushed_by_client:
  "bEditHistory pushHistoryBody = None
   \<and> map resStatus (fst (updateLeadCalls [operatorCall pushHistoryBody] [raviLead])) = [200]
   \<and> map (map editorId \<circ> editHistory)
       (snd (updateLeadCalls [operatorCall pushHistoryBody] [raviLead])) = [[''u2'', ''u1'']]"
  by (simp add: updateLeadCall_def updateLead_def schema_defs string_defs sample_defs)

text \<open>The \<^verbatim>\<open>newData\<close> snapshot is taken before the save: when the clock moves between the
  update write and the save, the stored \<^verbatim>\<open>updatedAt\<close> is later than the one in the
  snapshot, and the stored version key is one more than the one in the snapshot.\<close>

lemma newData_updatedAt_example:
  "map (map (updatedAt \<circ> newData) \<circ> editHistory)
     (snd (updateLead jan15 jan15 jan20 (asUser asha) ''l1'' (ucBody approveCall) [raviLead]))
     = [[jan15]]
   \<and> map updatedAt
       (snd (updateLead jan15 jan15 jan20 (asUser asha) ''l1'' (ucBody approveCall) [raviLead]))
     = [jan20]
   \<and> map (map (version \<circ> newData) \<circ> editHistory)
     (snd (updateLead jan15 jan15 jan20 (asUser asha) ''l1'' (ucBody approveCall) [raviLead]))
     = [[0]]
   \<and> map version
       (snd (updateLead jan15 jan15 jan20 (asUser asha) ''l1'' (ucBody approveCall) [raviLead]))
     = [1]"
  by (simp add: updateLead_def schema_defs string_defs sample_defs)

section \<open>Properties of the report controller\<close>

subsection \<open>Dashboard ratios\<close>

lemma fillStatusCounts_lookup:
  "distinct (map fst groups) \<Longrightarrow>
   fillStatusCounts groups m k = (case map_of groups k of Some c \<Rightarrow> Some c | None \<Rightarrow> m k)"
  unfolding fillStatusCounts_def
proof (induction groups arbitrary: m)
  case Nil
  then show ?case by simp
next
  case (Cons g gs)
  then show ?case
    by (cases g) (auto split: option.splits dest: map_of_SomeD simp: rev_image_eqI)
qed

lemma groupByStatus_lookup:
  "map_of (groupByStatus ls) s
     = (if s \<in> set (map status ls) then Some (length (filter (\<lambda>l. status l = s) ls)) else None)"
  by (induction "remdups (map status ls)")
    (auto simp: groupByStatus_def map_of_map_restrict restrict_map_def)

lemma groupByStatus_distinct: "distinct (map fst (groupByStatus ls))"
  by (simp add: groupByStatus_def comp_def)

text \<open>After the \<^verbatim>\<open>forEach\<close>, the entry of a status is the number of scoped leads with that
  status, also for a status that no lead has.\<close>

lemma countOf_status:
  "countOf (fillStatusCounts (groupByStatus ls) initialStatusCounts) s = withStatus s ls"
proof (cases "s \<in> set (map status ls)")
  case True
  then show ?thesis
    by (simp add: countOf_def fillStatusCounts_lookup [OF groupByStatus_distinct]
        groupByStatus_lookup withStatus_def)
next
  case False
  then have "filter (\<lambda>l. status l = s) ls = []"
    by (auto simp: filter_empty_conv)
  then show ?thesis
    using False
    by (auto simp: countOf_def fillStatusCounts_lookup [OF groupByStatus_distinct]
        groupByStatus_lookup initialStatusCounts_def withStatus_def split: option.splits)
qed

lemma percentage_3_of_10: "percentage 3 10 = numOfNat 30"
  by code_simp

lemma percentage_2_of_10: "percentage 2 10 = numOfNat 20"
  by code_simp

lemma numOfNat_30: "numOfNat 30 = Number (30 * 2 ^ 48) (- 48)"
  by code_simp

lemma numOfNat_20: "numOfNat 20 = Number (20 * 2 ^ 48) (- 48)"
  by code_simp

text \<open>Rounding is visible elsewhere: 7 of 100 gives 7.000000000000001, the number after 7.\<close>

lemma percentage_7_of_100:
  "numOfNat 7 = Number (7 * 2 ^ 50) (- 50) \<and> percentage 7 100 = Number (7 * 2 ^ 50 + 1) (- 50)"
  by code_simp

text \<open>The ratios that the handler computes, for any caller: the counts come from the
  aggregation, the total from \<^verbatim>\<open>countDocuments\<close>.\<close>

lemma dashboard_ratios_computed:
  "\<exists>st. getDashboardStats now usr leads = succeed 200 (Some st)
        \<and> totalLeads st = length (roleScoped usr leads)
        \<and> approvalRatio st
            = (if length (roleScoped usr leads) = 0 then numOfNat 0
               else percentage (withStatus ''Approved'' (aggregateMatch usr leads))
                      (length (roleScoped usr leads)))
        \<and> rejectionRatio st
            = (if length (roleScoped usr leads) = 0 then numOfNat 0
               else percentage (withStatus ''Rejected'' (aggregateMatch usr leads))
                      (length (roleScoped usr leads)))"
  by (auto simp: getDashboardStats_def Let_def countOf_status)

text \<open>For a SUPER ADMIN the filter is empty, the aggregation sees every lead, and the
  ratios are the ones of the claim: 30 and 20 for 3 Approved and 2 Rejected of 10, and 0
  when there is no lead.\<close>

lemma dashboard_ratios_super_admin:
  assumes "authRole usr = ''SUPER ADMIN''"
  shows "\<exists>st. getDashboardStats now usr leads = succeed 200 (Some st)
        \<and> totalLeads st = length leads
        \<and> approvalRatio st
            = (if length leads = 0 then numOfNat 0
               else percentage (withStatus ''Approved'' leads) (length leads))
        \<and> rejectionRatio st
            = (if length leads = 0 then numOfNat 0
               else percentage (withStatus ''Rejected'' leads) (length leads))
        \<and> (length leads = 10 \<and> withStatus ''Approved'' leads = 3
             \<and> withStatus ''Rejected'' leads = 2 \<longrightarrow>
             approvalRatio st = numOfNat 30 \<and> rejectionRatio st = numOfNat 20)"
  using assms dashboard_ratios_computed [of now usr leads]
  by (auto simp: roleScoped_def aggregateMatch_def percentage_3_of_10 percentage_2_of_10)

lemma dashboard_super_admin_example:
  "map_option totalLeads (resData (getDashboardStats jan20 (asUser sam) tenLeads)) = Some 10
   \<and> map_option approvalRatio (resData (getDashboardStats jan20 (asUser sam) tenLeads))
       = Some (numOfNat 30)
   \<and> map_option rejectionRatio (resData (getDashboardStats jan20 (asUser sam) tenLeads))
       = Some (numOfNat 20)"
proof -
  have "authRole (asUser sam) = ''SUPER ADMIN''" "length tenLeads = 10"
    "withStatus ''Approved'' tenLeads = 3" "withStatus ''Rejected'' tenLeads = 2"
    by (simp_all add: withStatus_def sample_defs)
  then show ?thesis
    using dashboard_ratios_super_admin [of "asUser sam" jan20 tenLeads]
    by (auto simp: succeed_def)
qed

text \<open>For any other caller the uncast \<^verbatim>\<open>$match\<close> selects nothing, so every status count
  stays 0 and both ratios are 0, whatever the caller's leads are.\<close>

lemma aggregateMatch_other_roles:
  "authRole usr \<noteq> ''SUPER ADMIN'' \<Longrightarrow> aggregateMatch usr leads = []"
  by (simp add: aggregateMatch_def)

lemma numOfNat_100: "numOfNat 100 = Number (100 * 2 ^ 46) (- 46)"
  by code_simp

lemma percentage_zero: "percentage 0 n = Number 0 0"
  by (simp add: percentage_def numDiv_def toNumber_def numOfNat_100)

text \<open>
  Claim C9 does not hold of the code for a caller of role ADMIN. Asha, an ADMIN, has ten
  leads, three Approved and two Rejected: the role-scoped total is 10, the claim asks for
  the ratios 30 and 20, and the handler answers 0 and 0. The total comes from
  \<^verbatim>\<open>countDocuments\<close>, which casts the caller's id, and the status counts from an
  aggregation whose \<^verbatim>\<open>$match\<close> stage, which the code's comment says applies the role-based
  filter, is given the id as a string.
\<close>

theorem dashboard_admin_ratios_zero:
  "length (roleScoped (asUser asha) (balaLead # tenLeads)) = 10
   \<and> withStatus ''Approved'' (roleScoped (asUser asha) (balaLead # tenLeads)) = 3
   \<and> withStatus ''Rejected'' (roleScoped (asUser asha) (balaLead # tenLeads)) = 2
   \<and> map_option totalLeads (resData (getDashboardStats jan20 (asUser asha) (balaLead # tenLeads)))
       = Some 10
   \<and> map_option approvalRatio
         (resData (getDashboardStats jan20 (asUser asha) (balaLead # tenLeads)))
       = Some (Number 0 0)
   \<and> map_option rejectionRatio
         (resData (getDashboardStats jan20 (asUser asha) (balaLead # tenLeads)))
       = Some (Number 0 0)
   \<and> numOfNat 30 = Number (30 * 2 ^ 48) (- 48) \<and> numOfNat 20 = Number (20 * 2 ^ 48) (- 48)"
proof -
  have role: "authRole (asUser asha) \<noteq> ''SUPER ADMIN''"
    by (simp add: sample_defs)
  have scoped: "roleScoped (asUser asha) (balaLead # tenLeads) = tenLeads"
    by (simp add: roleScoped_def sample_defs)
  have counts: "length tenLeads = 10" "withStatus ''Approved'' tenLeads = 3"
    "withStatus ''Rejected'' tenLeads = 2"
    by (simp_all add: withStatus_def sample_defs)
  have none: "withStatus ''Approved'' (aggregateMatch (asUser asha) (balaLead # tenLeads)) = 0"
    "withStatus ''Rejected'' (aggregateMatch (asUser asha) (balaLead # tenLeads)) = 0"
    using aggregateMatch_other_roles [OF role] by (simp_all add: withStatus_def)
  show ?thesis
    using dashboard_ratios_computed [of jan20 "asUser asha" "balaLead # tenLeads"]
      scoped counts none numOfNat_30 numOfNat_20
    by (auto simp: succeed_def percentage_zero)
qed

subsection \<open>Custom range export\<close>

text \<open>
  Claim C8. For a caller with role ADMIN the export does not depend on the \<^verbatim>\<open>adminId\<close> of
  the request, and every exported lead was created by the caller: the export is the
  caller's own leads in the date range. For a SUPER ADMIN a non-empty \<^verbatim>\<open>adminId\<close> selects
  the leads of that creator in the range, and a missing or empty one selects all leads in
  the range.
\<close>

theorem export_scoped_by_role:
  "(authRole usr = ''ADMIN'' \<longrightarrow>
      downloadCustomReport users usr (body\<lparr>adminId := a\<rparr>) leads
        = downloadCustomReport users usr body leads
      \<and> list_all (\<lambda>l. createdBy l = authId usr)
          (exportedLeads (downloadCustomReport users usr body leads)))
   \<and> (startDate body = Some s \<and> endDate body = Some e \<longrightarrow>
        (authRole usr = ''ADMIN'' \<longrightarrow>
           exportedLeads (downloadCustomReport users usr body leads)
             = filter (\<lambda>l. inRange s e l \<and> createdBy l = authId usr) leads)
        \<and> (authRole usr = ''SUPER ADMIN'' \<and> adminId body = Some c \<and> c \<noteq> [] \<longrightarrow>
             exportedLeads (downloadCustomReport users usr body leads)
               = filter (\<lambda>l. inRange s e l \<and> createdBy l = c) leads)
        \<and> (authRole usr = ''SUPER ADMIN'' \<and> \<not> truthy (adminId body) \<longrightarrow>
             exportedLeads (downloadCustomReport users usr body leads)
               = filter (inRange s e) leads))"
  by (auto simp: downloadCustomReport_def exportedLeads_def creatorFilter_def Let_def
      succeed_def failure_def valueOr_def comp_def list_all_iff split: option.splits
      cong: filter_cong)

theorem export_scoped_by_role_witness:
  "downloadCustomReport [asha, bala, sam] (asUser asha) (januaryBody\<lparr>adminId := Some ''u2''\<rparr>)
     [raviLead, balaLead]
     = downloadCustomReport [asha, bala, sam] (asUser asha) januaryBody [raviLead, balaLead]
   \<and> exportedLeads (downloadCustomReport [asha, bala, sam] (asUser asha) januaryBody
                       [raviLead, balaLead]) = [raviLead]
   \<and> exportedLeads (downloadCustomReport [asha, bala, sam] (asUser sam)
                       (januaryBody\<lparr>adminId := Some ''u2''\<rparr>) [raviLead, balaLead]) = [balaLead]
   \<and> exportedLeads (downloadCustomReport [asha, bala, sam] (asUser sam) januaryBody
                       [raviLead, balaLead]) = [raviLead, balaLead]"
proof -
  have admin: "authRole (asUser asha) = ''ADMIN''" and super: "authRole (asUser sam) = ''SUPER ADMIN''"
    by (simp_all add: sample_defs)
  have dates: "startDate januaryBody = Some jan15 \<and> endDate januaryBody = Some jan20"
    "startDate (januaryBody\<lparr>adminId := Some ''u2''\<rparr>) = Some jan15
     \<and> endDate (januaryBody\<lparr>adminId := Some ''u2''\<rparr>) = Some jan20"
    by (simp_all add: sample_defs)
  have ids: "adminId (januaryBody\<lparr>adminId := Some ''u2''\<rparr>) = Some ''u2'' \<and> ''u2'' \<noteq> []"
    "\<not> truthy (adminId januaryBody)"
    by (simp_all add: sample_defs)
  have own: "filter (\<lambda>l. inRange jan15 jan20 l \<and> createdBy l = authId (asUser asha))
               [raviLead, balaLead] = [raviLead]"
    and other: "filter (\<lambda>l. inRange jan15 jan20 l \<and> createdBy l = ''u2'') [raviLead, balaLead]
                  = [balaLead]"
    and every: "filter (inRange jan15 jan20) [raviLead, balaLead] = [raviLead, balaLead]"
    by (simp_all add: inRange_def endOfDay_def date_defs sample_defs)
  show ?thesis
    using export_scoped_by_role [where usr = "asUser asha" and users = "[asha, bala, sam]"
        and body = januaryBody and a = "Some ''u2''" and leads = "[raviLead, balaLead]"
        and s = jan15 and e = jan20 and c = "''u2''"]
      export_scoped_by_role [where usr = "asUser sam" and users = "[asha, bala, sam]"
        and body = "januaryBody\<lparr>adminId := Some ''u2''\<rparr>" and a = None
        and leads = "[raviLead, balaLead]" and s = jan15 and e = jan20 and c = "''u2''"]
      export_scoped_by_role [where usr = "asUser sam" and users = "[asha, bala, sam]"
        and body = januaryBody and a = None and leads = "[raviLead, balaLead]"
        and s = jan15 and e = jan20 and c = "''u2''"]
      admin super dates ids own other every
    by simp
qed

subsection \<open>Monthly scheduled report\<close>

lemma mailsOf_append: "mailsOf (xs @ ys) = mailsOf xs @ mailsOf ys"
  by (induction xs rule: mailsOf.induct) simp_all

lemma sendToAll_all_delivered:
  "\<forall>u \<in> set us. tr (fst (sendEmail tr (mk u))) \<Longrightarrow>
   snd (sendToAll tr mk us)
   \<and> mailsOf (fst (sendToAll tr mk us)) = map (\<lambda>u. fst (sendEmail tr (mk u))) us
   \<and> (\<forall>e \<in> set (fst (sendToAll tr mk us)). \<forall>s. e \<noteq> ConsoleError s)"
  by (induction us) (auto simp: Let_def sendEmail_def)

lemma sendToAll_stops:
  "\<forall>u \<in> set pre. tr (fst (sendEmail tr (mk u))) \<Longrightarrow> \<not> tr (fst (sendEmail tr (mk x))) \<Longrightarrow>
   \<not> snd (sendToAll tr mk (pre @ x # rest))
   \<and> mailsOf (fst (sendToAll tr mk (pre @ x # rest)))
       = map (\<lambda>u. fst (sendEmail tr (mk u))) (pre @ [x])"
  by (induction pre) (auto simp: Let_def sendEmail_def)

lemma sendToAll_first: "mailsOf (fst (sendToAll tr mk us)) = [] \<longleftrightarrow> us = []"
  by (cases us) (auto simp: Let_def)

lemma mailFor_to: "mailTo (mailFor ext now users leads u) = userEmail u"
  by (simp add: mailFor_def sendEmail_def monthlyEmail_def reportEmail_def Let_def)

text \<open>
  Claim C5, as the code has it. The loop over the SUPER ADMIN users has no handler of its
  own. When the transport delivers to the recipients before one and rejects the message
  to that one, the messages handed to the transport are those of the recipients up to and
  including the failing one, in order, and no remaining recipient is attempted; the
  failure is caught by the handler around the whole job, whose error line is the last
  thing the job prints.
\<close>

theorem send_failure_stops_loop:
  assumes supers: "usersWithRole ''SUPER ADMIN'' users = pre @ x # rest"
    and delivered: "\<forall>u \<in> set pre. sendMail ext (mailFor ext now users leads u)"
    and rejected: "\<not> sendMail ext (mailFor ext now users leads x)"
  shows "mailsOf (generateAndSendMonthlyReport ext now users leads)
           = map (mailFor ext now users leads) (pre @ [x])
       \<and> map mailTo (mailsOf (generateAndSendMonthlyReport ext now users leads))
           = map userEmail (pre @ [x])
       \<and> last (generateAndSendMonthlyReport ext now users leads)
           = ConsoleError ''Error generating and sending monthly report:''"
proof -
  have d: "\<forall>u \<in> set pre.
             sendMail ext (fst (sendEmail (sendMail ext) (monthlyEmail ext now users leads u)))"
    using delivered by (simp add: mailFor_def)
  have r: "\<not> sendMail ext (fst (sendEmail (sendMail ext) (monthlyEmail ext now users leads x)))"
    using rejected by (simp add: mailFor_def)
  note stop = sendToAll_stops [OF d r, of rest]
  have mails: "mailsOf (generateAndSendMonthlyReport ext now users leads)
           = map (mailFor ext now users leads) (pre @ [x])"
    using stop supers
    by (simp add: generateAndSendMonthlyReport_def Let_def mailsOf_append mailFor_def)
  show ?thesis
    using mails stop supers mailFor_to
    by (simp add: generateAndSendMonthlyReport_def Let_def comp_def)
qed

theorem send_failure_stops_loop_witness:
  "map mailTo (mailsOf (generateAndSendMonthlyReport rejectingSam feb01 [asha, tara, sam, uma]
                          [raviLead]))
     = [''tara@example.com'', ''sam@example.com'']
   \<and> last (generateAndSendMonthlyReport rejectingSam feb01 [asha, tara, sam, uma] [raviLead])
       = ConsoleError ''Error generating and sending monthly report:''"
proof -
  have supers: "usersWithRole ''SUPER ADMIN'' [asha, tara, sam, uma] = [tara] @ sam # [uma]"
    by (simp add: usersWithRole_def sample_defs)
  have delivered: "\<forall>u \<in> set [tara].
                     sendMail rejectingSam
                       (mailFor rejectingSam feb01 [asha, tara, sam, uma] [raviLead] u)"
    by (simp add: mailFor_to sample_defs)
  have rejected: "\<not> sendMail rejectingSam
                       (mailFor rejectingSam feb01 [asha, tara, sam, uma] [raviLead] sam)"
    by (simp add: mailFor_to sample_defs)
  from send_failure_stops_loop [OF supers delivered rejected] show ?thesis
    by (simp add: mailFor_to sample_defs)
qed

text \<open>The claim as stated fails: with Sam and Tara as SUPER ADMIN users and a transport
  that rejects the message to Sam, nothing is ever sent to Tara.\<close>

theorem remaining_recipients_counterexample:
  "usersWithRole ''SUPER ADMIN'' [asha, sam, tara] = [sam, tara]
   \<and> map mailTo (mailsOf (generateAndSendMonthlyReport rejectingSam feb01 [asha, sam, tara]
                            [raviLead]))
       = [userEmail sam]"
  by (simp add: report_defs date_defs sample_defs Let_def)

text \<open>
  Claim C6 does not hold of the code. The job builds, for each SUPER ADMIN, options with
  the spreadsheet and the PDF as two attachments and an HTML body, but \<^verbatim>\<open>sendEmail\<close> copies
  only the address, the subject and \<^verbatim>\<open>options.message\<close> into the message for the
  transport. In the run below every message is delivered, and none carries an attachment
  or a body.
\<close>

theorem monthly_mail_attachments_dropped:
  "map (length \<circ> attachments \<circ> monthlyEmail delivering feb01 [asha, sam, tara] [raviLead])
     (usersWithRole ''SUPER ADMIN'' [asha, sam, tara]) = [2, 2]
   \<and> map mailTo (mailsOf (generateAndSendMonthlyReport delivering feb01 [asha, sam, tara]
                            [raviLead]))
       = [userEmail sam, userEmail tara]
   \<and> map mailAttachments
       (mailsOf (generateAndSendMonthlyReport delivering feb01 [asha, sam, tara] [raviLead]))
       = [[], []]
   \<and> map mailHtml
       (mailsOf (generateAndSendMonthlyReport delivering feb01 [asha, sam, tara] [raviLead]))
       = [None, None]
   \<and> map mailText
       (mailsOf (generateAndSendMonthlyReport delivering feb01 [asha, sam, tara] [raviLead]))
       = [None, None]"
  by (simp add: report_defs date_defs sample_defs Let_def)

text \<open>The same in general: no message of the job carries an attachment.\<close>

lemma sendToAll_attachments:
  "m \<in> set (mailsOf (fst (sendToAll tr mk us))) \<Longrightarrow> mailAttachments m = [] \<and> mailHtml m = None"
  by (induction us) (auto simp: Let_def sendEmail_def split: if_splits)

lemma monthly_mails_carry_no_attachment:
  "m \<in> set (mailsOf (generateAndSendMonthlyReport ext now users leads))
     \<Longrightarrow> mailAttachments m = [] \<and> mailHtml m = None"
  using sendToAll_attachments
  by (auto simp: generateAndSendMonthlyReport_def Let_def mailsOf_append split: if_splits)

text \<open>
  Claim C7, as the code has it. With no user of role ADMIN the report has no rows, and
  the job goes on to mail it: no message reaches the transport only when there is no
  SUPER ADMIN user either. When the transport delivers every message, each SUPER ADMIN
  gets one, in order, and the job prints no error line.
\<close>

theorem no_admins_report:
  assumes "usersWithRole ''ADMIN'' users = []"
  shows "reportData now users leads = []
       \<and> (mailsOf (generateAndSendMonthlyReport ext now users leads) = []
            \<longleftrightarrow> usersWithRole ''SUPER ADMIN'' users = [])
       \<and> ((\<forall>m. sendMail ext m) \<longrightarrow>
            map mailTo (mailsOf (generateAndSendMonthlyReport ext now users leads))
              = map userEmail (usersWithRole ''SUPER ADMIN'' users)
            \<and> (\<forall>e \<in> set (generateAndSendMonthlyReport ext now users leads).
                  \<forall>s. e \<noteq> ConsoleError s))"
proof -
  have rows: "reportData now users leads = []"
    using assms by (simp add: reportData_def Let_def)
  have none: "mailsOf (generateAndSendMonthlyReport ext now users leads) = []
            \<longleftrightarrow> usersWithRole ''SUPER ADMIN'' users = []"
    by (simp add: generateAndSendMonthlyReport_def Let_def mailsOf_append sendToAll_first)
  have every: "map mailTo (mailsOf (generateAndSendMonthlyReport ext now users leads))
              = map userEmail (usersWithRole ''SUPER ADMIN'' users)
            \<and> (\<forall>e \<in> set (generateAndSendMonthlyReport ext now users leads).
                  \<forall>s. e \<noteq> ConsoleError s)"
    if ok: "\<forall>m. sendMail ext m"
  proof -
    have "\<forall>u \<in> set (usersWithRole ''SUPER ADMIN'' users).
            sendMail ext (fst (sendEmail (sendMail ext) (monthlyEmail ext now users leads u)))"
      using ok by simp
    note sent = sendToAll_all_delivered [OF this]
    have to: "mailTo (fst (sendEmail (sendMail ext) (monthlyEmail ext now users leads u)))
                = userEmail u" for u
      using mailFor_to [of ext now users leads u] by (simp add: mailFor_def)
    show ?thesis
      using sent to
      by (auto simp: generateAndSendMonthlyReport_def Let_def mailsOf_append comp_def)
  qed
  show ?thesis
    using rows none every by blast
qed

theorem no_admins_report_witness:
  "reportData feb01 [sam, tara] [raviLead] = []
   \<and> map mailTo (mailsOf (generateAndSendMonthlyReport delivering feb01 [sam, tara] [raviLead]))
       = [''sam@example.com'', ''tara@example.com'']"
proof -
  have none: "usersWithRole ''ADMIN'' [sam, tara] = []"
    by (simp add: usersWithRole_def sample_defs)
  have ok: "\<forall>m. sendMail delivering m"
    by (simp add: delivering_def)
  have supers: "map userEmail (usersWithRole ''SUPER ADMIN'' [sam, tara])
                  = [''sam@example.com'', ''tara@example.com'']"
    by (simp add: usersWithRole_def sample_defs)
  from no_admins_report [OF none, of feb01 "[raviLead]" delivering] ok supers show ?thesis
    by simp
qed

text \<open>The claim as stated fails: with no ADMIN user and Sam as SUPER ADMIN, the empty
  report is mailed to Sam.\<close>

theorem no_admins_counterexample:
  "usersWithRole ''ADMIN'' [sam] = []
   \<and> map mailTo (mailsOf (generateAndSendMonthlyReport delivering feb01 [sam] []))
       = [userEmail sam]"
  by (simp add: report_defs date_defs sample_defs Let_def)

end
